theory Spec2Isabelle
  imports Complex_Main "HOL-Library.Log_Nat"
begin

section \<open>Mouth and eye states\<close>

text \<open>
  \<^verbatim>\<open>MouthState\<close> is the three-valued union \<^verbatim>\<open>'open' | 'mid' | 'closed'\<close>; the eye state of
  the blink scheduler is \<^verbatim>\<open>'open' | 'closed'\<close>.
\<close>

datatype MouthState = MouthOpen | MouthMid | MouthClosed

datatype EyeState = EyeOpen | EyeClosed

subsection \<open>The transition table of the recording loop\<close>

text \<open>
  \<^verbatim>\<open>smoothTransition(prev, target)\<close> of the video generation effect: four explicit rows, every
  other pair yields the target.
\<close>

fun smoothTransition :: "MouthState \<Rightarrow> MouthState \<Rightarrow> MouthState" where
  "smoothTransition MouthClosed MouthOpen = MouthMid"
| "smoothTransition MouthOpen MouthClosed = MouthMid"
| "smoothTransition MouthMid MouthOpen = MouthOpen"
| "smoothTransition MouthMid MouthClosed = MouthClosed"
| "smoothTransition prev target = target"

text \<open>
  The recording loop keeps the displayed state in \<^verbatim>\<open>mouthStateRef\<close> and replaces it by
  \<^verbatim>\<open>smoothTransition(mouthStateRef.current, target)\<close> once per loudness frame.
  \<open>displayed\<close> lists the successive contents of the ref, the starting value first.
\<close>

fun displayed :: "MouthState \<Rightarrow> MouthState list \<Rightarrow> MouthState list" where
  "displayed prev [] = [prev]"
| "displayed prev (target # targets) = prev # displayed (smoothTransition prev target) targets"

text \<open>A direct jump is an adjacent pair open, closed or closed, open.\<close>

fun direct_jump :: "MouthState list \<Rightarrow> bool" where
  "direct_jump (MouthOpen # MouthClosed # rest) = True"
| "direct_jump (MouthClosed # MouthOpen # rest) = True"
| "direct_jump (s # rest) = direct_jump rest"
| "direct_jump [] = False"

section \<open>Frame resolution\<close>

text \<open>
  The four recommended frame indices of \<^verbatim>\<open>SpriteSheetAnalysis\<close> (services/geminiService.ts).
  They are numbers parsed from the remote JSON answer and are not validated anywhere. The
  per-frame classifications of the analysis are not read by frame resolution and are left out.
\<close>

record SpriteSheetAnalysis =
  recommendedEyesOpenFrame :: int
  recommendedEyesClosedFrame :: int
  recommendedMouthOpenFrame :: int
  recommendedMouthClosedFrame :: int

text \<open>
  \<^verbatim>\<open>ExpressionFrameSelection\<close> has one entry per combination of eye and mouth state. It is
  an object indexed by key; a key without a value reads as \<^verbatim>\<open>undefined\<close>, here \<open>None\<close>.
\<close>

datatype SelectionKey =
  eyesOpenMouthOpen | eyesOpenMouthMid | eyesOpenMouthClosed
  | eyesClosedMouthOpen | eyesClosedMouthMid | eyesClosedMouthClosed

type_synonym ExpressionFrameSelection = "SelectionKey \<Rightarrow> int option"

text \<open>\<^verbatim>\<open>a || b\<close> on numbers: \<^verbatim>\<open>a\<close> unless it is falsy, and the falsy index is 0.\<close>

definition js_or :: "int \<Rightarrow> int \<Rightarrow> int" where
  "js_or a b = (if a \<noteq> 0 then a else b)"

text \<open>\<^verbatim>\<open>analysis?.field ?? 0\<close>.\<close>

definition recommended :: "SpriteSheetAnalysis option \<Rightarrow> (SpriteSheetAnalysis \<Rightarrow> int) \<Rightarrow> int" where
  "recommended analysis field = (case analysis of None \<Rightarrow> 0 | Some a \<Rightarrow> field a)"

text \<open>\<^verbatim>\<open>createInitialSelection\<close> of components/FaceAnimationEditor.tsx.\<close>

definition createInitialSelection :: "SpriteSheetAnalysis option \<Rightarrow> ExpressionFrameSelection" where
  "createInitialSelection analysis =
     (let eyesOpen = recommended analysis recommendedEyesOpenFrame;
          eyesClosed = recommended analysis recommendedEyesClosedFrame;
          mouthOpen = recommended analysis recommendedMouthOpenFrame;
          mouthClosed = recommended analysis recommendedMouthClosedFrame;
          mouthMid = mouthOpen
      in (\<lambda>key. Some (case key of
            eyesOpenMouthOpen \<Rightarrow> eyesOpen
          | eyesOpenMouthMid \<Rightarrow> mouthMid
          | eyesOpenMouthClosed \<Rightarrow> eyesOpen
          | eyesClosedMouthOpen \<Rightarrow> eyesClosed
          | eyesClosedMouthMid \<Rightarrow> mouthMid
          | eyesClosedMouthClosed \<Rightarrow> js_or eyesClosed mouthClosed)))"

text \<open>
  \<^verbatim>\<open>resolvedSelection\<close> of the FaceAnimator component: the user's selection when there is
  one, otherwise the same table as above computed from the analysis.
\<close>

definition resolvedSelection ::
  "ExpressionFrameSelection option \<Rightarrow> SpriteSheetAnalysis option \<Rightarrow> ExpressionFrameSelection" where
  "resolvedSelection selectedFrames spriteAnalysis =
     (case selectedFrames of
        Some selected \<Rightarrow> selected
      | None \<Rightarrow>
         (let eyesOpen = recommended spriteAnalysis recommendedEyesOpenFrame;
              eyesClosed = recommended spriteAnalysis recommendedEyesClosedFrame;
              mouthOpen = recommended spriteAnalysis recommendedMouthOpenFrame;
              mouthClosed = recommended spriteAnalysis recommendedMouthClosedFrame;
              mouthMid = mouthOpen
          in (\<lambda>key. Some (case key of
                eyesOpenMouthOpen \<Rightarrow> eyesOpen
              | eyesOpenMouthMid \<Rightarrow> mouthMid
              | eyesOpenMouthClosed \<Rightarrow> eyesOpen
              | eyesClosedMouthOpen \<Rightarrow> eyesClosed
              | eyesClosedMouthMid \<Rightarrow> mouthMid
              | eyesClosedMouthClosed \<Rightarrow> js_or eyesClosed mouthClosed))))"

text \<open>The key chosen by \<^verbatim>\<open>resolveFrameIndex\<close> for an eye and a mouth state.\<close>

fun selectionKey :: "EyeState \<Rightarrow> MouthState \<Rightarrow> SelectionKey" where
  "selectionKey EyeOpen MouthOpen = eyesOpenMouthOpen"
| "selectionKey EyeOpen MouthMid = eyesOpenMouthMid"
| "selectionKey EyeOpen MouthClosed = eyesOpenMouthClosed"
| "selectionKey EyeClosed MouthOpen = eyesClosedMouthOpen"
| "selectionKey EyeClosed MouthMid = eyesClosedMouthMid"
| "selectionKey EyeClosed MouthClosed = eyesClosedMouthClosed"

text \<open>\<^verbatim>\<open>resolveFrameIndex(eye, mouth)\<close>: \<^verbatim>\<open>resolvedSelection[key] ?? 0\<close>.\<close>

definition resolveFrameIndex ::
  "ExpressionFrameSelection option \<Rightarrow> SpriteSheetAnalysis option \<Rightarrow> EyeState \<Rightarrow> MouthState \<Rightarrow> int" where
  "resolveFrameIndex selectedFrames spriteAnalysis eye mouth =
     (case resolvedSelection selectedFrames spriteAnalysis (selectionKey eye mouth) of
        None \<Rightarrow> 0
      | Some idx \<Rightarrow> idx)"

text \<open>An index is a valid sprite-frame index when it lies in \<open>[0, frameCount)\<close>.\<close>

definition valid_frame_index :: "nat \<Rightarrow> int \<Rightarrow> bool" where
  "valid_frame_index frameCount idx = (0 \<le> idx \<and> idx < int frameCount)"

text \<open>The analysis given as the example answer in the prompt of \<^verbatim>\<open>analyzeSpriteSheet\<close>.\<close>

definition example_analysis :: SpriteSheetAnalysis where
  "example_analysis =
     \<lparr> recommendedEyesOpenFrame = 0, recommendedEyesClosedFrame = 2,
       recommendedMouthOpenFrame = 5, recommendedMouthClosedFrame = 15 \<rparr>"

section \<open>Double precision numbers\<close>

text \<open>
  Numbers of the program are IEEE 754 doubles, and every arithmetic operation rounds its
  exact result to the nearest double, ties to the even significand. \<open>round_double\<close> is that
  rounding: a significand of 53 bits, with the fixed spacing \<^verbatim>\<open>2^-1074\<close> below
  \<^verbatim>\<open>2^-1022\<close> (gradual underflow). Two things are left out: results of magnitude
  \<^verbatim>\<open>2^1024\<close> and above, which the program holds as \<^verbatim>\<open>Infinity\<close>, and the sign of zero.
\<close>

text \<open>Rounding a real to the nearest integer, a tie to the even one.\<close>

definition round_even :: "real \<Rightarrow> int" where
  "round_even m =
     (let f = \<lfloor>m\<rfloor>; d = m - of_int f
      in if d < 1 / 2 then f else if 1 / 2 < d then f + 1 else if even f then f else f + 1)"

text \<open>The exponent \<open>e\<close> of a positive real \<open>a\<close>, with \<open>2 ^ e \<le> a < 2 ^ (e + 1)\<close>.\<close>

definition binade :: "real \<Rightarrow> int" where
  "binade a = (if 1 \<le> a then bitlen \<lfloor>a\<rfloor> - 1 else - bitlen (\<lceil>1 / a\<rceil> - 1))"

definition round_double :: "real \<Rightarrow> real" where
  "round_double a =
     (if a = 0 then 0
      else (let q = max (binade \<bar>a\<bar>) (- 1022) - 52
            in of_int (round_even (a / 2 powi q)) * 2 powi q))"

section \<open>Audio loudness analysis\<close>

text \<open>
  A number of the analysis is a double or \<^verbatim>\<open>NaN\<close>, which arises from \<^verbatim>\<open>0 / 0\<close> and from
  reading outside the sample array. The operations round their results.
\<close>

datatype jsnum = Num real | NaN

fun js_add :: "jsnum \<Rightarrow> jsnum \<Rightarrow> jsnum" where
  "js_add (Num a) (Num b) = Num (round_double (a + b))"
| "js_add a b = NaN"

fun js_mul :: "jsnum \<Rightarrow> jsnum \<Rightarrow> jsnum" where
  "js_mul (Num a) (Num b) = Num (round_double (a * b))"
| "js_mul a b = NaN"

text \<open>\<^verbatim>\<open>Math.sqrt\<close>: correctly rounded, \<^verbatim>\<open>NaN\<close> on a negative number and on \<^verbatim>\<open>NaN\<close>.\<close>

fun js_sqrt :: "jsnum \<Rightarrow> jsnum" where
  "js_sqrt (Num a) = (if a < 0 then NaN else Num (round_double (sqrt a)))"
| "js_sqrt NaN = NaN"

text \<open>
  \<^verbatim>\<open>sum / count\<close> for a count of elements. When \<^verbatim>\<open>count\<close> is 0 nothing was added, \<^verbatim>\<open>sum\<close> is
  still 0, and \<^verbatim>\<open>0 / 0\<close> is \<^verbatim>\<open>NaN\<close>.
\<close>

fun js_div_count :: "jsnum \<Rightarrow> nat \<Rightarrow> jsnum" where
  "js_div_count (Num a) count = (if count = 0 then NaN else Num (round_double (a / real count)))"
| "js_div_count NaN count = NaN"

text \<open>\<^verbatim>\<open>a > t\<close>: false when \<^verbatim>\<open>a\<close> is \<^verbatim>\<open>NaN\<close>.\<close>

fun js_gt :: "jsnum \<Rightarrow> real \<Rightarrow> bool" where
  "js_gt (Num a) t = (t < a)"
| "js_gt NaN t = False"

text \<open>
  The part of an \<^verbatim>\<open>AudioBuffer\<close> that the analysis reads: the sample rate, the duration in
  seconds and the samples of channel 0. The duration of a decoded buffer is the double
  \<^verbatim>\<open>length / sampleRate\<close>.
\<close>

record AudioBuffer =
  sampleRate :: real
  duration :: real
  channelData :: "real list"

definition decoded :: "AudioBuffer \<Rightarrow> bool" where
  "decoded audioBuffer =
     (0 < sampleRate audioBuffer
      \<and> duration audioBuffer
          = round_double (real (length (channelData audioBuffer)) / sampleRate audioBuffer))"

record VolumeFrame =
  time :: real
  volume :: jsnum
  mouthState :: MouthState

text \<open>\<^verbatim>\<open>channelData[i]\<close>; outside the array the read is \<^verbatim>\<open>undefined\<close> and its square \<^verbatim>\<open>NaN\<close>.\<close>

definition sample_at :: "real list \<Rightarrow> int \<Rightarrow> jsnum" where
  "sample_at samples i =
     (if 0 \<le> i \<and> i < int (length samples) then Num (samples ! nat i) else NaN)"

text \<open>
  The inner loop \<^verbatim>\<open>for (let i = startSample; i < endSample; i++)\<close>: the sum of the squares
  and the number of samples of the window.
\<close>

definition window_loop :: "real list \<Rightarrow> int \<Rightarrow> int \<Rightarrow> jsnum \<times> nat" where
  "window_loop samples startSample endSample =
     foldl (\<lambda>(sum, count) i.
              (js_add sum (js_mul (sample_at samples i) (sample_at samples i)), Suc count))
       (Num 0, 0) [startSample..endSample - 1]"

text \<open>The variables that the outer loop of \<^verbatim>\<open>analyzeAudioBuffer\<close> updates.\<close>

record analysis_state =
  smoothing :: jsnum
  lastOpenTime :: int
  isOpen :: bool
  frames :: "VolumeFrame list"

definition initial_analysis_state :: analysis_state where
  "initial_analysis_state =
     \<lparr> smoothing = Num 0, lastOpenTime = - 1, isOpen = False, frames = [] \<rparr>"

text \<open>
  One iteration of the outer loop, for frame \<open>frameIndex\<close>. The body runs only when
  \<open>frameIndex\<close> is below \<^verbatim>\<open>Math.ceil(duration * fps)\<close>, which needs \<open>fps \<noteq> 0\<close>, so \<open>1 / fps\<close>
  is a number wherever the body is evaluated. \<^verbatim>\<open>frameIndex\<close> and \<^verbatim>\<open>samplesPerFrame\<close> are
  integers, so their product and the sums of sample indices are exact and the \<^verbatim>\<open>Math.floor\<close>
  around the product changes nothing. The literals \<^verbatim>\<open>0.7\<close> and \<^verbatim>\<open>0.3\<close> are the nearest doubles.
\<close>

definition frame_body ::
  "AudioBuffer \<Rightarrow> real \<Rightarrow> real \<Rightarrow> real \<Rightarrow> analysis_state \<Rightarrow> nat \<Rightarrow> analysis_state" where
  "frame_body audioBuffer fps threshold releaseTime st frameIndex =
     (let frameInterval = round_double (1 / fps);
          samplesPerFrame = \<lfloor>round_double (sampleRate audioBuffer * frameInterval)\<rfloor>;
          releaseFrames = \<lceil>round_double (releaseTime * fps)\<rceil>;
          t = round_double (real frameIndex * frameInterval);
          startSample = int frameIndex * samplesPerFrame;
          endSample = min (startSample + samplesPerFrame) (int (length (channelData audioBuffer)));
          (sum, count) = window_loop (channelData audioBuffer) startSample endSample;
          rms = js_sqrt (js_div_count sum count);
          smoothedVolume = js_add (js_mul (smoothing st) (Num (round_double (7 / 10))))
                                  (js_mul rms (Num (round_double (3 / 10))))
      in if js_gt smoothedVolume threshold then
           st \<lparr> smoothing := smoothedVolume, isOpen := True, lastOpenTime := int frameIndex,
                frames := frames st @ [\<lparr> time = t, volume = smoothedVolume, mouthState = MouthOpen \<rparr>] \<rparr>
         else if isOpen st \<and> int frameIndex - lastOpenTime st < releaseFrames then
           st \<lparr> smoothing := smoothedVolume,
                frames := frames st @ [\<lparr> time = t, volume = smoothedVolume, mouthState = MouthOpen \<rparr>] \<rparr>
         else
           st \<lparr> smoothing := smoothedVolume, isOpen := False,
                frames := frames st @ [\<lparr> time = t, volume = smoothedVolume, mouthState = MouthClosed \<rparr>] \<rparr>)"

text \<open>The state after the first \<open>n\<close> iterations of the outer loop.\<close>

definition analysis_loop ::
  "AudioBuffer \<Rightarrow> real \<Rightarrow> real \<Rightarrow> real \<Rightarrow> nat \<Rightarrow> analysis_state" where
  "analysis_loop audioBuffer fps threshold releaseTime n =
     foldl (frame_body audioBuffer fps threshold releaseTime) initial_analysis_state [0..<n]"

text \<open>
  \<^verbatim>\<open>analyzeAudioBuffer(audioBuffer, fps, threshold, releaseTime)\<close>: the loop runs for
  \<^verbatim>\<open>frameIndex = 0, 1, ...\<close> while \<^verbatim>\<open>frameIndex < Math.ceil(duration * fps)\<close>, the product
  being a double.
\<close>

definition analyzeAudioBuffer ::
  "AudioBuffer \<Rightarrow> real \<Rightarrow> real \<Rightarrow> real \<Rightarrow> VolumeFrame list" where
  "analyzeAudioBuffer audioBuffer fps threshold releaseTime =
     frames (analysis_loop audioBuffer fps threshold releaseTime
               (nat \<lceil>round_double (duration audioBuffer * fps)\<rceil>))"


definition short_clip :: AudioBuffer where
  "short_clip =
     \<lparr> sampleRate = 8000, duration = round_double (1 / 8000), channelData = [1 / 2] \<rparr>"

definition silent_clip :: "nat \<Rightarrow> AudioBuffer" where
  "silent_clip n =
     \<lparr> sampleRate = 8000, duration = round_double (real n / 8000), channelData = replicate n 0 \<rparr>"

section \<open>The face part rectangle editor\<close>

text \<open>\<^verbatim>\<open>FacePartRect\<close>: a rectangle \<^verbatim>\<open>{x, y, w, h}\<close> in coordinates relative to one frame.\<close>

record FacePartRect =
  x :: real
  y :: real
  w :: real
  h :: real

record FacePartRectMap =
  eyesOpen :: FacePartRect
  eyesClosed :: FacePartRect
  mouthOpen :: FacePartRect
  mouthClosed :: FacePartRect

definition DEFAULT_FACE_PARTS :: FacePartRectMap where
  "DEFAULT_FACE_PARTS =
     \<lparr> eyesOpen = \<lparr> x = 0.25, y = 0.2, w = 0.5, h = 0.15 \<rparr>,
       eyesClosed = \<lparr> x = 0.25, y = 0.2, w = 0.5, h = 0.05 \<rparr>,
       mouthOpen = \<lparr> x = 0.3, y = 0.5, w = 0.4, h = 0.2 \<rparr>,
       mouthClosed = \<lparr> x = 0.3, y = 0.55, w = 0.4, h = 0.05 \<rparr> \<rparr>"

text \<open>The handle of a drag: \<^verbatim>\<open>'move'\<close> or one of the eight resize handles.\<close>

datatype Handle =
  HandleMove | HandleNW | HandleNE | HandleSW | HandleSE | HandleN | HandleS | HandleE | HandleW

text \<open>
  The four resize blocks of \<^verbatim>\<open>handleMouseMove\<close>, in the order of the source. Each reads
  and updates \<^verbatim>\<open>currentRect\<close>; \<open>dx\<close> and \<open>dy\<close> are the mouse displacement since the
  start of the drag, in frame-relative units.
\<close>

definition resize_block1 :: "Handle \<Rightarrow> real \<Rightarrow> real \<Rightarrow> FacePartRect \<Rightarrow> FacePartRect" where
  "resize_block1 handle dx dy currentRect =
     (if handle = HandleNW \<or> handle = HandleN \<or> handle = HandleW then
        (let newW = w currentRect - dx;
             newH = (if handle = HandleNW \<or> handle = HandleN then h currentRect - dy
                     else h currentRect)
         in if newW > 0.01 \<and> newH > 0.01 then
              (let r1 = (if handle = HandleNW \<or> handle = HandleW
                         then currentRect \<lparr> x := max 0 (x currentRect + dx) \<rparr> else currentRect);
                   r2 = (if handle = HandleNW \<or> handle = HandleN
                         then r1 \<lparr> y := max 0 (y r1 + dy) \<rparr> else r1);
                   r3 = r2 \<lparr> w := newW \<rparr>
               in if handle = HandleNW \<or> handle = HandleN then r3 \<lparr> h := newH \<rparr> else r3)
            else currentRect)
      else currentRect)"

definition resize_block2 :: "Handle \<Rightarrow> real \<Rightarrow> real \<Rightarrow> FacePartRect \<Rightarrow> FacePartRect" where
  "resize_block2 handle dx dy currentRect =
     (if handle = HandleNE \<or> handle = HandleN \<or> handle = HandleE then
        (let newW = (if handle = HandleNE \<or> handle = HandleE then w currentRect + dx
                     else w currentRect);
             newH = (if handle = HandleNE \<or> handle = HandleN then h currentRect - dy
                     else h currentRect)
         in if newW > 0.01 \<and> newH > 0.01 then
              (let r1 = (if handle = HandleNE \<or> handle = HandleN
                         then currentRect \<lparr> y := max 0 (y currentRect + dy) \<rparr> else currentRect);
                   r2 = r1 \<lparr> w := newW \<rparr>
               in if handle = HandleNE \<or> handle = HandleN then r2 \<lparr> h := newH \<rparr> else r2)
            else currentRect)
      else currentRect)"

definition resize_block3 :: "Handle \<Rightarrow> real \<Rightarrow> real \<Rightarrow> FacePartRect \<Rightarrow> FacePartRect" where
  "resize_block3 handle dx dy currentRect =
     (if handle = HandleSW \<or> handle = HandleS \<or> handle = HandleW then
        (let newW = (if handle = HandleSW \<or> handle = HandleW then w currentRect - dx
                     else w currentRect);
             newH = (if handle = HandleSW \<or> handle = HandleS then h currentRect + dy
                     else h currentRect)
         in if newW > 0.01 \<and> newH > 0.01 then
              (let r1 = (if handle = HandleSW \<or> handle = HandleW
                         then currentRect \<lparr> x := max 0 (x currentRect + dx) \<rparr> else currentRect)
               in r1 \<lparr> w := newW, h := newH \<rparr>)
            else currentRect)
      else currentRect)"

definition resize_block4 :: "Handle \<Rightarrow> real \<Rightarrow> real \<Rightarrow> FacePartRect \<Rightarrow> FacePartRect" where
  "resize_block4 handle dx dy currentRect =
     (if handle = HandleSE \<or> handle = HandleS \<or> handle = HandleE then
        (let newW = (if handle = HandleSE \<or> handle = HandleE then w currentRect + dx
                     else w currentRect);
             newH = (if handle = HandleSE \<or> handle = HandleS then h currentRect + dy
                     else h currentRect)
         in if newW > 0.01 \<and> newH > 0.01
               \<and> x currentRect + newW \<le> 1 \<and> y currentRect + newH \<le> 1 then
              currentRect \<lparr> w := newW, h := newH \<rparr>
            else currentRect)
      else currentRect)"

text \<open>
  The rectangle that \<^verbatim>\<open>handleMouseMove\<close> stores for the dragged part: computed from
  \<^verbatim>\<open>dragging.startRect\<close>, the handle and the displacement.
\<close>

definition handleMouseMove :: "Handle \<Rightarrow> FacePartRect \<Rightarrow> real \<Rightarrow> real \<Rightarrow> FacePartRect" where
  "handleMouseMove handle startRect dx dy =
     (if handle = HandleMove then
        (let r1 = startRect \<lparr> x := max 0 (min (1 - w startRect) (x startRect + dx)) \<rparr>
         in r1 \<lparr> y := max 0 (min (1 - h r1) (y r1 + dy)) \<rparr>)
      else
        resize_block4 handle dx dy
          (resize_block3 handle dx dy
             (resize_block2 handle dx dy
                (resize_block1 handle dx dy startRect))))"

text \<open>A rectangle lies within the unit square.\<close>

definition within_unit_square :: "FacePartRect \<Rightarrow> bool" where
  "within_unit_square r = (0 \<le> x r \<and> 0 \<le> y r \<and> x r + w r \<le> 1 \<and> y r + h r \<le> 1)"

section \<open>The heuristic frame search\<close>

text \<open>Further operations on doubles used by the scorer.\<close>

fun js_sub :: "jsnum \<Rightarrow> jsnum \<Rightarrow> jsnum" where
  "js_sub (Num a) (Num b) = Num (round_double (a - b))"
| "js_sub a b = NaN"

text \<open>Division by a constant that is not 0.\<close>

fun js_div_const :: "jsnum \<Rightarrow> real \<Rightarrow> jsnum" where
  "js_div_const (Num a) d = Num (round_double (a / d))"
| "js_div_const NaN d = NaN"

text \<open>\<^verbatim>\<open>a < t\<close>: false when \<^verbatim>\<open>a\<close> is \<^verbatim>\<open>NaN\<close>.\<close>

fun js_lt :: "jsnum \<Rightarrow> real \<Rightarrow> bool" where
  "js_lt (Num a) t = (a < t)"
| "js_lt NaN t = False"

text \<open>\<^verbatim>\<open>Math.min\<close>: \<^verbatim>\<open>NaN\<close> when an argument is \<^verbatim>\<open>NaN\<close>.\<close>

fun js_min :: "jsnum \<Rightarrow> jsnum \<Rightarrow> jsnum" where
  "js_min (Num a) (Num b) = Num (min a b)"
| "js_min a b = NaN"

text \<open>
  The browser primitives that \<^verbatim>\<open>analyzeMouthOpenness\<close> calls are taken from an environment:
  \<open>decode\<close> is the image that a data URL loads, \<open>None\<close> when the load fails and
  \<^verbatim>\<open>onerror\<close> fires; \<open>context2d\<close> tells whether \<^verbatim>\<open>canvas.getContext('2d')\<close> gives a context;
  \<open>getImageData img x y w h\<close> is the byte array (red, green, blue, alpha per pixel, row by
  row) that \<^verbatim>\<open>ctx.getImageData(0, 0, w, h)\<close> returns after the crop \<open>(x, y, w, h)\<close> of the
  image was drawn at the origin of a canvas of size \<open>w\<close> by \<open>h\<close>.
\<close>

record 'img canvas_env =
  decode :: "string \<Rightarrow> 'img option"
  context2d :: bool
  getImageData :: "'img \<Rightarrow> int \<Rightarrow> int \<Rightarrow> int \<Rightarrow> int \<Rightarrow> nat list"

text \<open>\<^verbatim>\<open>data[idx]\<close>; outside the array the read is \<^verbatim>\<open>undefined\<close>, in arithmetic \<^verbatim>\<open>NaN\<close>.\<close>

definition byte_at :: "nat list \<Rightarrow> int \<Rightarrow> jsnum" where
  "byte_at bytes idx =
     (if 0 \<le> idx \<and> idx < int (length bytes) then Num (real (bytes ! nat idx)) else NaN)"

text \<open>
  The body of the pixel loops for the pixel \<open>(px, py)\<close> of a crop of width \<open>cw\<close>: the
  brightness that is pushed, if the pixel is opaque enough.
\<close>

definition pixel_brightness :: "nat list \<Rightarrow> int \<Rightarrow> int \<Rightarrow> int \<Rightarrow> jsnum list" where
  "pixel_brightness bytes cw py px =
     (let idx = (py * cw + px) * 4;
          r = byte_at bytes idx;
          g = byte_at bytes (idx + 1);
          b = byte_at bytes (idx + 2);
          alpha = byte_at bytes (idx + 3)
      in if js_gt alpha 128 then
           [js_div_const
              (js_add (js_add (js_mul r (Num (round_double (299 / 1000))))
                              (js_mul g (Num (round_double (587 / 1000)))))
                      (js_mul b (Num (round_double (114 / 1000)))))
              255]
         else [])"

text \<open>
  The two nested loops over the rows \<open>centerStartY \<le> py < centerEndY\<close> and the columns
  \<open>0 \<le> px < cw\<close>: the list \<^verbatim>\<open>brightnessValues\<close>. \<^verbatim>\<open>nonTransparentPixels\<close> is its length.
\<close>

definition brightness_values :: "nat list \<Rightarrow> int \<Rightarrow> int \<Rightarrow> int \<Rightarrow> jsnum list" where
  "brightness_values bytes cw centerStartY centerEndY =
     concat (map (\<lambda>py. concat (map (pixel_brightness bytes cw py) [0..cw - 1]))
               [centerStartY..centerEndY - 1])"

text \<open>The score computed from a non-empty list of brightness values.\<close>

definition openness_score :: "jsnum list \<Rightarrow> jsnum" where
  "openness_score brightnessValues =
     (let avgBrightness =
            js_div_count (foldl js_add (Num 0) brightnessValues) (length brightnessValues);
          variance =
            js_div_count
              (foldl (\<lambda>sum val. js_add sum (js_mul (js_sub val avgBrightness)
                                                     (js_sub val avgBrightness)))
                 (Num 0) brightnessValues)
              (length brightnessValues);
          stdDev = js_sqrt variance;
          darkPixels = length (filter (\<lambda>brightness. js_lt brightness (round_double (3 / 10)))
                                 brightnessValues);
          darkRatio = js_div_count (Num (real darkPixels)) (length brightnessValues);
          normalizedVariance = js_min (js_mul stdDev (Num 3)) (Num 1)
      in js_add (js_mul normalizedVariance (Num (round_double (7 / 10))))
                (js_mul darkRatio (Num (round_double (3 / 10)))))"

text \<open>
  \<^verbatim>\<open>analyzeMouthOpenness\<close>: the value its promise resolves to, and \<open>None\<close> when the promise
  never settles. The promise resolves to 0 when the image fails to load, when there is no
  context and when no pixel is opaque enough. When the crop has width or height 0,
  \<^verbatim>\<open>getImageData\<close> throws inside the \<^verbatim>\<open>onload\<close> handler, nothing catches that, and the promise
  is never resolved.
\<close>

definition analyzeMouthOpenness ::
  "'img canvas_env \<Rightarrow> string \<Rightarrow> FacePartRect \<Rightarrow> real \<Rightarrow> real \<Rightarrow> jsnum option" where
  "analyzeMouthOpenness env frameDataUrl mouthRect frameWidth frameHeight =
     (case decode env frameDataUrl of
        None \<Rightarrow> Some (Num 0)
      | Some img \<Rightarrow>
          (let cx = \<lfloor>round_double (x mouthRect * frameWidth)\<rfloor>;
               cy = \<lfloor>round_double (y mouthRect * frameHeight)\<rfloor>;
               cw = \<lfloor>round_double (w mouthRect * frameWidth)\<rfloor>;
               ch = \<lfloor>round_double (h mouthRect * frameHeight)\<rfloor>
           in if \<not> context2d env then Some (Num 0)
              else if cw = 0 \<or> ch = 0 then None
              else
                (let bytes = getImageData env img cx cy cw ch;
                     centerStartY = \<lfloor>round_double (real_of_int ch * round_double (2 / 10))\<rfloor>;
                     centerEndY = \<lfloor>round_double (real_of_int ch * round_double (8 / 10))\<rfloor>;
                     brightnessValues = brightness_values bytes cw centerStartY centerEndY
                 in if brightnessValues = [] then Some (Num 0)
                    else Some (openness_score brightnessValues))))"

text \<open>
  The rectangle analysed in every frame: the hull of the default rectangles of the open and
  the closed mouth. The fields of the defaults are the doubles nearest to the decimal literals.
\<close>

definition search_mouth_rect :: FacePartRect where
  "search_mouth_rect =
     (let mox = round_double (x (mouthOpen DEFAULT_FACE_PARTS));
          moy = round_double (y (mouthOpen DEFAULT_FACE_PARTS));
          mow = round_double (w (mouthOpen DEFAULT_FACE_PARTS));
          moh = round_double (h (mouthOpen DEFAULT_FACE_PARTS));
          mcx = round_double (x (mouthClosed DEFAULT_FACE_PARTS));
          mcy = round_double (y (mouthClosed DEFAULT_FACE_PARTS));
          mcw = round_double (w (mouthClosed DEFAULT_FACE_PARTS));
          mch = round_double (h (mouthClosed DEFAULT_FACE_PARTS))
      in \<lparr> x = min mox mcx,
           y = min moy mcy,
           w = round_double (max (round_double (mox + mow)) (round_double (mcx + mcw)) - min mox mcx),
           h = round_double (max (round_double (moy + moh)) (round_double (mcy + mch)) - min moy mcy) \<rparr>)"

text \<open>
  The variables of the loop of \<^verbatim>\<open>findBestExpressionFrames\<close>. \<^verbatim>\<open>minMouthOpen\<close> starts as
  \<^verbatim>\<open>Infinity\<close>, here \<open>None\<close>.
\<close>

record search_state =
  maxMouthOpen :: real
  minMouthOpen :: "real option"
  mouthOpenIndex :: nat
  mouthClosedIndex :: nat

record expression_frames =
  eyesOpenFrameIndex :: nat
  eyesClosedFrameIndex :: nat
  mouthOpenFrameIndex :: nat
  mouthClosedFrameIndex :: nat

text \<open>
  The two comparisons of an iteration, for frame \<open>i\<close> and its score. Both are false for
  \<^verbatim>\<open>NaN\<close>.
\<close>

definition search_update :: "search_state \<Rightarrow> nat \<Rightarrow> jsnum \<Rightarrow> search_state" where
  "search_update st i openness =
     (case openness of
        NaN \<Rightarrow> st
      | Num v \<Rightarrow>
          (let st1 = (if maxMouthOpen st < v
                      then st \<lparr> maxMouthOpen := v, mouthOpenIndex := i \<rparr> else st)
           in if (case minMouthOpen st1 of None \<Rightarrow> True | Some m \<Rightarrow> v < m)
              then st1 \<lparr> minMouthOpen := Some v, mouthClosedIndex := i \<rparr> else st1))"

text \<open>
  The loop over the frame indices. It awaits the score of each frame; when one of these
  promises never settles, neither does the loop.
\<close>

fun search_loop ::
  "'img canvas_env \<Rightarrow> string list \<Rightarrow> real \<Rightarrow> real \<Rightarrow> search_state \<Rightarrow> nat list
     \<Rightarrow> search_state option" where
  "search_loop env frameList frameWidth frameHeight st [] = Some st"
| "search_loop env frameList frameWidth frameHeight st (i # rest) =
     (case analyzeMouthOpenness env (frameList ! i) search_mouth_rect frameWidth frameHeight of
        None \<Rightarrow> None
      | Some openness \<Rightarrow>
          search_loop env frameList frameWidth frameHeight (search_update st i openness) rest)"

text \<open>
  \<^verbatim>\<open>findBestExpressionFrames\<close>: the value its promise resolves to, \<open>None\<close> when it never
  settles.
\<close>

definition findBestExpressionFrames ::
  "'img canvas_env \<Rightarrow> string list \<Rightarrow> real \<Rightarrow> real \<Rightarrow> expression_frames option" where
  "findBestExpressionFrames env frameList frameWidth frameHeight =
     (case search_loop env frameList frameWidth frameHeight
             \<lparr> maxMouthOpen = 0, minMouthOpen = None, mouthOpenIndex = 0, mouthClosedIndex = 0 \<rparr>
             [0..<length frameList] of
        None \<Rightarrow> None
      | Some st \<Rightarrow>
          Some \<lparr> eyesOpenFrameIndex = 0, eyesClosedFrameIndex = 0,
                 mouthOpenFrameIndex = mouthOpenIndex st,
                 mouthClosedFrameIndex = mouthClosedIndex st \<rparr>)"

text \<open>
  An environment with two images that load, one opaque white and one opaque black in every
  pixel; every other URL fails to load. A context exists.
\<close>

definition two_tone_env :: "bool canvas_env" where
  "two_tone_env =
     \<lparr> decode = (\<lambda>url. if url = ''white'' then Some True
                       else if url = ''black'' then Some False else None),
       context2d = True,
       getImageData = (\<lambda>img cx cy cw ch.
         concat (replicate (nat (cw * ch)) (if img then [255, 255, 255, 255] else [0, 0, 0, 255]))) \<rparr>"

section \<open>The remote analysis call\<close>

text \<open>
  The part of the answer of \<^verbatim>\<open>generateContent\<close> that \<^verbatim>\<open>analyzeSpriteSheet\<close> reads:
  \<^verbatim>\<open>response.candidates?.[0]?.content?.parts\<close> and the \<^verbatim>\<open>text\<close> of each part, here the
  field \<open>part_text\<close>. A field that is absent is \<open>None\<close>.
\<close>

record Part =
  part_text :: "string option"

record Content =
  parts :: "Part list option"

record Candidate =
  content :: "Content option"

record GenerateContentResponse =
  candidates :: "Candidate list option"

datatype api_error = Error string

text \<open>
  The loop over the parts. \<open>parse\<close> stands for \<^verbatim>\<open>JSON.parse\<close>, with \<open>None\<close> for a thrown
  syntax error. The first part whose text is truthy, that is present and not empty, decides.
\<close>

fun parts_loop :: "(string \<Rightarrow> 'a option) \<Rightarrow> Part list \<Rightarrow> api_error + 'a" where
  "parts_loop parse [] = Inl (Error ''No analysis data in the response.'')"
| "parts_loop parse (p # ps) =
     (case part_text p of
        None \<Rightarrow> parts_loop parse ps
      | Some txt \<Rightarrow>
          if txt = [] then parts_loop parse ps
          else (case parse txt of
                  Some analysis \<Rightarrow> Inr analysis
                | None \<Rightarrow> Inl (Error ''Failed to parse analysis response as JSON'')))"

text \<open>\<^verbatim>\<open>response.candidates?.[0]?.content?.parts\<close>.\<close>

definition response_parts :: "GenerateContentResponse \<Rightarrow> Part list option" where
  "response_parts response =
     (case candidates response of
        None \<Rightarrow> None
      | Some [] \<Rightarrow> None
      | Some (c # cs) \<Rightarrow> (case content c of None \<Rightarrow> None | Some ct \<Rightarrow> parts ct))"

text \<open>
  \<^verbatim>\<open>analyzeSpriteSheet\<close> after the remote call, whose outcome is the argument: an error thrown
  by the call, or its response. Every error is thrown again by the outer handler.
\<close>

definition analyzeSpriteSheet ::
  "(string \<Rightarrow> 'a option) \<Rightarrow> api_error + GenerateContentResponse \<Rightarrow> api_error + 'a" where
  "analyzeSpriteSheet parse outcome =
     (case outcome of
        Inl err \<Rightarrow> Inl err
      | Inr response \<Rightarrow>
          (case response_parts response of
             None \<Rightarrow> Inl (Error ''No analysis data in the response.'')
           | Some ps \<Rightarrow> parts_loop parse ps))"

text \<open>The truthy texts among the parts of a response, in order.\<close>

definition text_parts :: "GenerateContentResponse \<Rightarrow> string list" where
  "text_parts response =
     (case response_parts response of
        None \<Rightarrow> []
      | Some ps \<Rightarrow> filter (\<lambda>txt. txt \<noteq> []) (List.map_filter part_text ps))"

section \<open>The video generation effect\<close>

datatype AudioSource = AudioBufferSource AudioBuffer | MediaStreamSource











section \<open>Example inputs\<close>

definition empty_clip :: AudioBuffer where
  "empty_clip = \<lparr> sampleRate = 8000, duration = 0, channelData = [] \<rparr>"


text \<open>
  Three responses of the remote call: one whose only text is not JSON, one without any text,
  and one with a text that parses. \<open>parse_example\<close> is a parser that rejects the first text.
\<close>

definition malformed_response :: GenerateContentResponse where
  "malformed_response =
     \<lparr> candidates = Some [\<lparr> content = Some \<lparr> parts = Some [\<lparr> part_text = Some ''{oops'' \<rparr>] \<rparr> \<rparr>] \<rparr>"

definition no_text_response :: GenerateContentResponse where
  "no_text_response =
     \<lparr> candidates = Some [\<lparr> content = Some \<lparr> parts = Some [\<lparr> part_text = None \<rparr>] \<rparr> \<rparr>] \<rparr>"

definition good_response :: GenerateContentResponse where
  "good_response =
     \<lparr> candidates = Some [\<lparr> content = Some \<lparr> parts = Some [\<lparr> part_text = Some ''{}'' \<rparr>] \<rparr> \<rparr>] \<rparr>"

definition parse_example :: "string \<Rightarrow> SpriteSheetAnalysis option" where
  "parse_example txt = (if txt = ''{oops'' then None else Some example_analysis)"

section \<open>Theorems\<close>

lemma direct_jump_Cons:
  "direct_jump (a # b # rest) =
     ((a = MouthOpen \<and> b = MouthClosed) \<or> (a = MouthClosed \<and> b = MouthOpen) \<or> direct_jump (b # rest))"
  by (cases a; cases b) simp_all

lemma displayed_head: "\<exists>rest. displayed prev targets = prev # rest"
  by (cases targets) simp_all

lemma smoothTransition_no_jump:
  "\<not> (prev = MouthOpen \<and> smoothTransition prev target = MouthClosed)"
  "\<not> (prev = MouthClosed \<and> smoothTransition prev target = MouthOpen)"
  by (cases prev; cases target; simp)+

lemma displayed_no_jump: "\<not> direct_jump (displayed prev targets)"
proof (induction targets arbitrary: prev)
  case Nil
  show ?case by simp
next
  case (Cons target targets)
  define nxt where "nxt = smoothTransition prev target"
  obtain rest where rest: "displayed nxt targets = nxt # rest"
    using displayed_head by blast
  have "\<not> direct_jump (nxt # rest)"
    using Cons.IH [of nxt] rest by simp
  moreover have "\<not> (prev = MouthOpen \<and> nxt = MouthClosed)" "\<not> (prev = MouthClosed \<and> nxt = MouthOpen)"
    unfolding nxt_def by (rule smoothTransition_no_jump)+
  ultimately have "\<not> direct_jump (prev # nxt # rest)"
    by (simp only: direct_jump_Cons) blast
  then show ?case
    using rest by (simp add: nxt_def)
qed

text \<open>
  C3. The four rows of the table are closed to mid, open to mid, mid to open and mid to closed;
  no single call of the smoother takes open to closed or closed to open; and along every
  sequence of calls the displayed states contain no adjacent pair open, closed or closed, open.
\<close>

theorem C3_smoothTransition_table:
  "smoothTransition MouthClosed MouthOpen = MouthMid
   \<and> smoothTransition MouthOpen MouthClosed = MouthMid
   \<and> smoothTransition MouthMid MouthOpen = MouthOpen
   \<and> smoothTransition MouthMid MouthClosed = MouthClosed
   \<and> smoothTransition MouthOpen target \<noteq> MouthClosed
   \<and> smoothTransition MouthClosed target \<noteq> MouthOpen
   \<and> \<not> direct_jump (displayed prev targets)"
  using displayed_no_jump [of prev targets] by (cases target) simp_all

subsection \<open>Frame resolution\<close>

lemma resolveFrameIndex_default:
  "resolveFrameIndex None analysis eye mouth =
     (case selectionKey eye mouth of
        eyesOpenMouthOpen \<Rightarrow> recommended analysis recommendedEyesOpenFrame
      | eyesOpenMouthMid \<Rightarrow> recommended analysis recommendedMouthOpenFrame
      | eyesOpenMouthClosed \<Rightarrow> recommended analysis recommendedEyesOpenFrame
      | eyesClosedMouthOpen \<Rightarrow> recommended analysis recommendedEyesClosedFrame
      | eyesClosedMouthMid \<Rightarrow> recommended analysis recommendedMouthOpenFrame
      | eyesClosedMouthClosed \<Rightarrow>
          js_or (recommended analysis recommendedEyesClosedFrame)
                (recommended analysis recommendedMouthClosedFrame))"
  by (simp add: resolveFrameIndex_def resolvedSelection_def Let_def)

text \<open>
  C4, as the claim states it, fails: with no user selection and an analysis that recommends
  frame 16 for open eyes, the combination (open, open) resolves to 16, which is not an
  index of a sheet of 16 frames.
\<close>

theorem C4_counterexample:
  "\<not> valid_frame_index 16
       (resolveFrameIndex None
          (Some \<lparr> recommendedEyesOpenFrame = 16, recommendedEyesClosedFrame = 2,
                  recommendedMouthOpenFrame = 5, recommendedMouthClosedFrame = 15 \<rparr>)
          EyeOpen MouthOpen)"
  by (simp add: resolveFrameIndex_default recommended_def valid_frame_index_def)

text \<open>
  C4, amended. Frame resolution is total. Its result is a valid index of a non-empty frame
  list for all six combinations whenever the values it reads are valid: every entry of the
  user's selection when there is one, otherwise the four recommended indices of the analysis
  when there is one. With no analysis and no user selection every combination resolves to 0.
\<close>

theorem C4_resolveFrameIndex_valid:
  assumes "0 < frameCount"
    and "\<And>selected key idx. selectedFrames = Some selected \<Longrightarrow> selected key = Some idx
           \<Longrightarrow> valid_frame_index frameCount idx"
    and "\<And>a. selectedFrames = None \<Longrightarrow> spriteAnalysis = Some a \<Longrightarrow>
           valid_frame_index frameCount (recommendedEyesOpenFrame a)
           \<and> valid_frame_index frameCount (recommendedEyesClosedFrame a)
           \<and> valid_frame_index frameCount (recommendedMouthOpenFrame a)
           \<and> valid_frame_index frameCount (recommendedMouthClosedFrame a)"
  shows "valid_frame_index frameCount (resolveFrameIndex selectedFrames spriteAnalysis eye mouth)
         \<and> resolveFrameIndex None None eye mouth = 0"
proof
  have zero: "valid_frame_index frameCount 0"
    using assms(1) by (simp add: valid_frame_index_def)
  show "valid_frame_index frameCount (resolveFrameIndex selectedFrames spriteAnalysis eye mouth)"
  proof (cases selectedFrames)
    case (Some selected)
    show ?thesis
    proof (cases "selected (selectionKey eye mouth)")
      case None
      with Some zero show ?thesis
        by (simp add: resolveFrameIndex_def resolvedSelection_def)
    next
      case (Some idx)
      with \<open>selectedFrames = Some selected\<close> assms(2) show ?thesis
        by (simp add: resolveFrameIndex_def resolvedSelection_def)
    qed
  next
    case None
    show ?thesis
    proof (cases spriteAnalysis)
      case None
      with \<open>selectedFrames = None\<close> zero show ?thesis
        by (simp add: resolveFrameIndex_default recommended_def js_or_def
            split: SelectionKey.split)
    next
      case (Some a)
      with \<open>selectedFrames = None\<close> assms(3) [of a] show ?thesis
        by (simp add: resolveFrameIndex_default recommended_def js_or_def
            split: SelectionKey.split)
    qed
  qed
next
  show "resolveFrameIndex None None eye mouth = 0"
    by (simp add: resolveFrameIndex_default recommended_def js_or_def split: SelectionKey.split)
qed

theorem C4_resolveFrameIndex_valid_witness:
  "valid_frame_index 16 (resolveFrameIndex None (Some example_analysis) EyeClosed MouthClosed)
   \<and> valid_frame_index 16
        (resolveFrameIndex (Some (createInitialSelection (Some example_analysis))) None
           EyeOpen MouthMid)
   \<and> resolveFrameIndex None None EyeClosed MouthClosed = 0"
proof -
  have count: "0 < (16::nat)" by simp
  have recommended_valid:
    "valid_frame_index 16 (recommendedEyesOpenFrame a)
     \<and> valid_frame_index 16 (recommendedEyesClosedFrame a)
     \<and> valid_frame_index 16 (recommendedMouthOpenFrame a)
     \<and> valid_frame_index 16 (recommendedMouthClosedFrame a)"
    if "Some example_analysis = Some a" for a
    using that by (auto simp: example_analysis_def valid_frame_index_def)
  have selected_valid: "valid_frame_index 16 idx"
    if "Some (createInitialSelection (Some example_analysis)) = Some selected"
      and "selected key = Some idx" for selected key idx
    using that
    by (cases key)
      (auto simp: createInitialSelection_def recommended_def js_or_def Let_def
        example_analysis_def valid_frame_index_def)
  have "valid_frame_index 16 (resolveFrameIndex None (Some example_analysis) EyeClosed MouthClosed)
        \<and> resolveFrameIndex None None EyeClosed MouthClosed = 0"
    by (rule C4_resolveFrameIndex_valid [OF count]) (simp_all add: recommended_valid)
  moreover have "valid_frame_index 16
        (resolveFrameIndex (Some (createInitialSelection (Some example_analysis))) None
           EyeOpen MouthMid)
        \<and> resolveFrameIndex None None EyeOpen MouthMid = 0"
    by (rule C4_resolveFrameIndex_valid [OF count]) (simp_all add: selected_valid)
  ultimately show ?thesis by simp
qed

text \<open>
  C10. In the default mapping, computed by \<^verbatim>\<open>resolvedSelection\<close> without a user selection and
  by \<^verbatim>\<open>createInitialSelection\<close>, the key (eyes closed, mouth closed) holds
  \<^verbatim>\<open>eyesClosed || mouthClosed\<close>: the recommended mouth-closed index when the recommended
  eyes-closed index is 0, and the recommended eyes-closed index whenever that is not 0.
\<close>

theorem C10_eyesClosedMouthClosed_default:
  "(recommendedEyesClosedFrame a = 0 \<longrightarrow>
      resolveFrameIndex None (Some a) EyeClosed MouthClosed = recommendedMouthClosedFrame a
      \<and> createInitialSelection (Some a) eyesClosedMouthClosed = Some (recommendedMouthClosedFrame a))
   \<and> (recommendedEyesClosedFrame a \<noteq> 0 \<longrightarrow>
      resolveFrameIndex None (Some a) EyeClosed MouthClosed = recommendedEyesClosedFrame a
      \<and> createInitialSelection (Some a) eyesClosedMouthClosed = Some (recommendedEyesClosedFrame a))"
  by (simp add: resolveFrameIndex_default createInitialSelection_def recommended_def js_or_def
      Let_def)

theorem C10_eyesClosedMouthClosed_default_witness:
  "resolveFrameIndex None
     (Some \<lparr> recommendedEyesOpenFrame = 1, recommendedEyesClosedFrame = 0,
             recommendedMouthOpenFrame = 5, recommendedMouthClosedFrame = 15 \<rparr>)
     EyeClosed MouthClosed = 15
   \<and> resolveFrameIndex None (Some example_analysis) EyeClosed MouthClosed = 2"
  using C10_eyesClosedMouthClosed_default
          [of "\<lparr> recommendedEyesOpenFrame = 1, recommendedEyesClosedFrame = 0,
                  recommendedMouthOpenFrame = 5, recommendedMouthClosedFrame = 15 \<rparr>"]
        C10_eyesClosedMouthClosed_default [of example_analysis]
  by (simp add: example_analysis_def)

subsection \<open>Rounding to double precision\<close>

lemma pow2_le_of_int: "(2::int) ^ k \<le> m \<Longrightarrow> (2::real) ^ k \<le> real_of_int m"
  by (metis of_int_le_iff of_int_numeral of_int_power)

lemma of_int_le_pow2: "m \<le> (2::int) ^ k \<Longrightarrow> real_of_int m \<le> (2::real) ^ k"
  by (metis of_int_le_iff of_int_numeral of_int_power)

lemma binade_bounds:
  assumes "0 < a"
  shows "2 powi binade a \<le> a" and "a < 2 powi (binade a + 1)"
proof -
  show "2 powi binade a \<le> a"
  proof (cases "1 \<le> a")
    case True
    then have pos: "0 < \<lfloor>a\<rfloor>" by simp
    have b1: "1 \<le> bitlen \<lfloor>a\<rfloor>" using pos by (auto simp: bitlen_alt_def)
    from bitlen_bounds [OF pos] have "(2::int) ^ nat (bitlen \<lfloor>a\<rfloor> - 1) \<le> \<lfloor>a\<rfloor>" ..
    then have "(2::real) ^ nat (bitlen \<lfloor>a\<rfloor> - 1) \<le> real_of_int \<lfloor>a\<rfloor>"
      by (rule pow2_le_of_int)
    also have "\<dots> \<le> a" by simp
    finally show ?thesis
      using True b1 by (simp add: binade_def power_int_def)
  next
    case False
    define m where "m = \<lceil>1 / a\<rceil> - 1"
    from False assms have "1 < 1 / a" by simp
    then have mpos: "0 < m" unfolding m_def by linarith
    have k1: "1 \<le> bitlen m" using mpos by (auto simp: bitlen_alt_def)
    from bitlen_bounds [OF mpos] have "m < 2 ^ nat (bitlen m)" ..
    then have "m + 1 \<le> 2 ^ nat (bitlen m)" by simp
    then have "real_of_int (m + 1) \<le> 2 ^ nat (bitlen m)"
      by (rule of_int_le_pow2)
    moreover have "1 / a \<le> real_of_int (m + 1)"
      unfolding m_def by simp
    ultimately have "1 / a \<le> 2 ^ nat (bitlen m)" by linarith
    then have "1 / 2 ^ nat (bitlen m) \<le> a"
      using assms by (simp add: field_simps)
    moreover have "binade a = - int (nat (bitlen m))"
      using False k1 by (simp add: binade_def m_def)
    ultimately show ?thesis
      by (simp only: power_int_minus power_int_of_nat) (simp add: field_simps)
  qed
  show "a < 2 powi (binade a + 1)"
  proof (cases "1 \<le> a")
    case True
    then have pos: "0 < \<lfloor>a\<rfloor>" by simp
    have b1: "1 \<le> bitlen \<lfloor>a\<rfloor>" using pos by (auto simp: bitlen_alt_def)
    from bitlen_bounds [OF pos] have "\<lfloor>a\<rfloor> < 2 ^ nat (bitlen \<lfloor>a\<rfloor>)" ..
    then have "\<lfloor>a\<rfloor> + 1 \<le> 2 ^ nat (bitlen \<lfloor>a\<rfloor>)" by simp
    then have "real_of_int (\<lfloor>a\<rfloor> + 1) \<le> 2 ^ nat (bitlen \<lfloor>a\<rfloor>)"
      by (rule of_int_le_pow2)
    moreover have "a < real_of_int (\<lfloor>a\<rfloor> + 1)" by linarith
    ultimately have "a < 2 ^ nat (bitlen \<lfloor>a\<rfloor>)" by linarith
    with True b1 show ?thesis
      by (simp add: binade_def power_int_def)
  next
    case False
    define m where "m = \<lceil>1 / a\<rceil> - 1"
    from False assms have "1 < 1 / a" by simp
    then have mpos: "0 < m" unfolding m_def by linarith
    have k1: "1 \<le> bitlen m" using mpos by (auto simp: bitlen_alt_def)
    from bitlen_bounds [OF mpos] have "2 ^ nat (bitlen m - 1) \<le> m" ..
    then have "(2::real) ^ nat (bitlen m - 1) \<le> real_of_int m"
      by (rule pow2_le_of_int)
    moreover have "real_of_int m < 1 / a"
      unfolding m_def by linarith
    ultimately have lt: "2 ^ nat (bitlen m - 1) < 1 / a" by linarith
    then have "a < 1 / 2 ^ nat (bitlen m - 1)"
      using assms by (simp add: field_simps)
    moreover have "binade a + 1 = - int (nat (bitlen m - 1))"
      using False k1 by (simp add: binade_def m_def)
    ultimately show ?thesis
      by (simp only: power_int_minus power_int_of_nat) (simp add: field_simps)
  qed
qed

lemma round_even_error: "\<bar>real_of_int (round_even m) - m\<bar> \<le> 1 / 2"
  unfolding round_even_def Let_def by (auto; linarith)

lemma round_even_nonneg: "0 \<le> m \<Longrightarrow> 0 \<le> round_even m"
  unfolding round_even_def Let_def by auto

text \<open>The rounding error is at most half the spacing of the doubles around the number.\<close>

lemma round_double_quantum:
  assumes "a \<noteq> 0"
  shows "\<bar>round_double a - a\<bar> \<le> 2 powi (max (binade \<bar>a\<bar>) (- 1022) - 52) / 2"
proof -
  define q where "q = max (binade \<bar>a\<bar>) (- 1022) - 52"
  have pos: "(0::real) < 2 powi q" by simp
  have "round_double a - a = (real_of_int (round_even (a / 2 powi q)) - a / 2 powi q) * 2 powi q"
    using assms pos by (simp add: round_double_def Let_def q_def [symmetric] field_simps)
  then have "\<bar>round_double a - a\<bar> = \<bar>real_of_int (round_even (a / 2 powi q)) - a / 2 powi q\<bar> * 2 powi q"
    by (simp add: abs_mult)
  also have "\<dots> \<le> 1 / 2 * 2 powi q"
    using round_even_error [of "a / 2 powi q"] pos by (intro mult_right_mono) simp_all
  finally show ?thesis by (simp add: q_def)
qed

text \<open>In the normal range the relative rounding error is at most \<open>1 / 2 ^ 53\<close>.\<close>

lemma round_double_error:
  assumes "2 powi (- 1022) \<le> \<bar>a\<bar>"
  shows "\<bar>round_double a - a\<bar> \<le> \<bar>a\<bar> / 2 ^ 53"
proof -
  have "(0::real) < 2 powi (- 1022)" by simp
  with assms have nz: "a \<noteq> 0" and apos: "0 < \<bar>a\<bar>" by auto
  have lo: "2 powi binade \<bar>a\<bar> \<le> \<bar>a\<bar>" and hi: "\<bar>a\<bar> < 2 powi (binade \<bar>a\<bar> + 1)"
    using binade_bounds [OF apos] by simp_all
  have "(2::real) powi (- 1022) < 2 powi (binade \<bar>a\<bar> + 1)"
    using assms hi by simp
  then have "- 1022 < binade \<bar>a\<bar> + 1"
    using power_int_increasing [of "binade \<bar>a\<bar> + 1" "- 1022" "2::real"]
    by (cases "- 1022 < binade \<bar>a\<bar> + 1") simp_all
  then have mx: "max (binade \<bar>a\<bar>) (- 1022) = binade \<bar>a\<bar>" by simp
  have "\<bar>round_double a - a\<bar> \<le> 2 powi (binade \<bar>a\<bar> - 52) / 2"
    using round_double_quantum [OF nz] by (simp add: mx)
  also have "\<dots> = 2 powi binade \<bar>a\<bar> / 2 ^ 53"
    by (simp add: power_int_diff)
  also have "\<dots> \<le> \<bar>a\<bar> / 2 ^ 53"
    using lo by (simp add: divide_right_mono)
  finally show ?thesis .
qed

lemma round_double_0: "round_double 0 = 0"
  by (simp add: round_double_def)

lemma round_double_nonneg: "0 \<le> a \<Longrightarrow> 0 \<le> round_double a"
  by (simp add: round_double_def Let_def round_even_nonneg)

text \<open>Below the normal range, and indeed below 1/2, a non-negative number rounds to less than 1.\<close>

lemma round_double_small:
  assumes "0 \<le> a" and "a < 2 powi (- 1022)"
  shows "round_double a < 1"
proof (cases "a = 0")
  case True
  then show ?thesis by (simp add: round_double_0)
next
  case False
  with assms have apos: "0 < \<bar>a\<bar>" by simp
  have "2 powi binade \<bar>a\<bar> \<le> \<bar>a\<bar>"
    using binade_bounds(1) [OF apos] .
  with assms have "(2::real) powi binade \<bar>a\<bar> < 2 powi (- 1022)" by simp
  then have "binade \<bar>a\<bar> < - 1022"
    using power_int_increasing [of "- 1022" "binade \<bar>a\<bar>" "2::real"]
    by (cases "binade \<bar>a\<bar> < - 1022") simp_all
  then have mx: "max (binade \<bar>a\<bar>) (- 1022) = - 1022" by simp
  have "\<bar>round_double a - a\<bar> \<le> 2 powi (- 1074) / 2"
    using round_double_quantum [OF False] by (simp add: mx)
  moreover have "(2::real) powi (- 1074) / 2 < 1 / 2"
    by (simp add: power_int_minus field_simps)
  moreover have "(2::real) powi (- 1022) < 1 / 2"
    by (simp add: power_int_minus field_simps)
  ultimately show ?thesis
    using assms by linarith
qed

subsection \<open>Audio loudness analysis\<close>

lemma analysis_loop_Suc:
  "analysis_loop b fps th rt (Suc n) = frame_body b fps th rt (analysis_loop b fps th rt n) n"
  by (simp add: analysis_loop_def)

lemma analysis_loop_0: "analysis_loop b fps th rt 0 = initial_analysis_state"
  by (simp add: analysis_loop_def)

text \<open>Whatever the loudness of the window, an iteration has one of three outcomes.\<close>

lemma frame_body_cases:
  "\<exists>v. frame_body b fps th rt st k =
     (if js_gt v th then
        st \<lparr> smoothing := v, isOpen := True, lastOpenTime := int k,
             frames := frames st @ [\<lparr> time = round_double (real k * round_double (1 / fps)),
                                     volume = v, mouthState = MouthOpen \<rparr>] \<rparr>
      else if isOpen st \<and> int k - lastOpenTime st < \<lceil>round_double (rt * fps)\<rceil> then
        st \<lparr> smoothing := v,
             frames := frames st @ [\<lparr> time = round_double (real k * round_double (1 / fps)),
                                     volume = v, mouthState = MouthOpen \<rparr>] \<rparr>
      else
        st \<lparr> smoothing := v, isOpen := False,
             frames := frames st @ [\<lparr> time = round_double (real k * round_double (1 / fps)),
                                     volume = v, mouthState = MouthClosed \<rparr>] \<rparr>)"
  unfolding frame_body_def Let_def by (simp split: prod.split) blast

lemma frame_body_frames:
  "\<exists>f. frames (frame_body b fps th rt st k) = frames st @ [f]
       \<and> time f = round_double (real k * round_double (1 / fps))"
proof -
  obtain v where "frame_body b fps th rt st k =
     (if js_gt v th then
        st \<lparr> smoothing := v, isOpen := True, lastOpenTime := int k,
             frames := frames st @ [\<lparr> time = round_double (real k * round_double (1 / fps)),
                                     volume = v, mouthState = MouthOpen \<rparr>] \<rparr>
      else if isOpen st \<and> int k - lastOpenTime st < \<lceil>round_double (rt * fps)\<rceil> then
        st \<lparr> smoothing := v,
             frames := frames st @ [\<lparr> time = round_double (real k * round_double (1 / fps)),
                                     volume = v, mouthState = MouthOpen \<rparr>] \<rparr>
      else
        st \<lparr> smoothing := v, isOpen := False,
             frames := frames st @ [\<lparr> time = round_double (real k * round_double (1 / fps)),
                                     volume = v, mouthState = MouthClosed \<rparr>] \<rparr>)"
    using frame_body_cases by blast
  then show ?thesis by simp
qed


lemma length_frames_loop: "length (frames (analysis_loop b fps th rt n)) = n"
proof (induction n)
  case 0
  show ?case by (simp add: analysis_loop_0 initial_analysis_state_def)
next
  case (Suc n)
  obtain f where "frames (analysis_loop b fps th rt (Suc n)) = frames (analysis_loop b fps th rt n) @ [f]"
    using frame_body_frames [of b fps th rt "analysis_loop b fps th rt n" n]
    by (auto simp: analysis_loop_Suc)
  with Suc show ?case by simp
qed

text \<open>Frame \<open>i\<close> is written by iteration \<open>i\<close> and never changed afterwards.\<close>

lemma frames_loop_prefix:
  "i < n \<Longrightarrow> frames (analysis_loop b fps th rt n) ! i = frames (analysis_loop b fps th rt (Suc i)) ! i"
proof (induction n)
  case 0
  then show ?case by simp
next
  case (Suc n)
  obtain f where f: "frames (analysis_loop b fps th rt (Suc n)) = frames (analysis_loop b fps th rt n) @ [f]"
    using frame_body_frames [of b fps th rt "analysis_loop b fps th rt n" n]
    by (auto simp: analysis_loop_Suc)
  show ?case
  proof (cases "i = n")
    case True
    then show ?thesis by simp
  next
    case False
    with Suc.prems have "i < n" by simp
    then have "frames (analysis_loop b fps th rt (Suc n)) ! i = frames (analysis_loop b fps th rt n) ! i"
      by (simp add: f nth_append length_frames_loop)
    with Suc.IH \<open>i < n\<close> show ?thesis by simp
  qed
qed

lemma time_loop:
  "time (frames (analysis_loop b fps th rt (Suc i)) ! i)
     = round_double (real i * round_double (1 / fps))"
proof -
  obtain f where f: "frames (analysis_loop b fps th rt (Suc i)) = frames (analysis_loop b fps th rt i) @ [f]"
    "time f = round_double (real i * round_double (1 / fps))"
    using frame_body_frames [of b fps th rt "analysis_loop b fps th rt i" i]
    by (auto simp: analysis_loop_Suc)
  then show ?thesis
    by (simp add: nth_append length_frames_loop)
qed

text \<open>The number of frames and the time of each frame of the result.\<close>

lemma length_analyzeAudioBuffer:
  "length (analyzeAudioBuffer b fps th rt) = nat \<lceil>round_double (duration b * fps)\<rceil>"
  by (simp add: analyzeAudioBuffer_def length_frames_loop)

lemma time_analyzeAudioBuffer:
  "i < length (analyzeAudioBuffer b fps th rt) \<Longrightarrow>
     time (analyzeAudioBuffer b fps th rt ! i) = round_double (real i * round_double (1 / fps))"
  using frames_loop_prefix [of i "nat \<lceil>round_double (duration b * fps)\<rceil>" b fps th rt]
  by (simp add: analyzeAudioBuffer_def length_frames_loop time_loop)









text \<open>Rounding a number between 0 and \<open>2 ^ 51\<close> moves it by at most a quarter.\<close>

lemma round_double_quarter:
  assumes "0 \<le> p" and "p \<le> 2 ^ 51"
  shows "\<bar>round_double p - p\<bar> \<le> 1 / 4"
proof (cases "2 powi (- 1022) \<le> p")
  case True
  then have "\<bar>round_double p - p\<bar> \<le> \<bar>p\<bar> / 2 ^ 53"
    using assms(1) by (intro round_double_error) simp
  also have "\<dots> \<le> 2 ^ 51 / 2 ^ 53"
    using assms by (simp add: divide_right_mono)
  finally show ?thesis by simp
next
  case False
  then have small: "p < 2 powi (- 1022)" by simp
  have "0 \<le> round_double p" "round_double p < 1"
    using assms(1) small by (simp_all add: round_double_nonneg round_double_small)
  show ?thesis
  proof (cases "p = 0")
    case True
    then show ?thesis by (simp add: round_double_0)
  next
    case False
    with assms have apos: "0 < \<bar>p\<bar>" by simp
    have "2 powi binade \<bar>p\<bar> \<le> \<bar>p\<bar>"
      using binade_bounds(1) [OF apos] .
    with small assms have "(2::real) powi binade \<bar>p\<bar> < 2 powi (- 1022)" by simp
    then have "binade \<bar>p\<bar> < - 1022"
      using power_int_increasing [of "- 1022" "binade \<bar>p\<bar>" "2::real"]
      by (cases "binade \<bar>p\<bar> < - 1022") simp_all
    then have mx: "max (binade \<bar>p\<bar>) (- 1022) = - 1022" by simp
    have "\<bar>round_double p - p\<bar> \<le> 2 powi (- 1074) / 2"
      using round_double_quantum [OF False] by (simp add: mx)
    moreover have "(2::real) powi (- 1074) / 2 \<le> 1 / 4"
      by (simp add: power_int_minus field_simps)
    ultimately show ?thesis by linarith
  qed
qed

text \<open>
  The times of the frames. \<open>c\<close> is the double \<^verbatim>\<open>1 / fps\<close>; for a frame rate between
  \<open>1 / 2 ^ 1000\<close> and \<open>2 ^ 1000\<close> it is a normal double, and so is every product
  \<open>i * c\<close> with \<open>i \<ge> 1\<close>.
\<close>

lemma normal_bound: "(2::real) powi (- 1022) \<le> 1 / 2 ^ 1000 / 2"
  by (simp add: power_int_minus field_simps)

lemma frame_interval_bounds:
  assumes "1 / 2 ^ 1000 \<le> fps" and "fps \<le> 2 ^ 1000"
  shows "\<bar>round_double (1 / fps) - 1 / fps\<bar> \<le> 1 / fps / 2 ^ 53"
    and "2 powi (- 1022) \<le> round_double (1 / fps)"
proof -
  define inv where "inv = 1 / fps"
  define lo :: real where "lo = 2 powi (- 1022)"
  define k :: real where "k = 1 / 2 ^ 1000"
  have kpos: "0 < k" by (simp add: k_def)
  have fpos: "0 < fps"
    using assms(1) kpos unfolding k_def by linarith
  have "1 / 2 ^ 1000 \<le> 1 / fps"
    using assms(2) fpos by (intro divide_left_mono) simp_all
  then have inv_lo: "k \<le> inv"
    by (simp only: k_def inv_def)
  have p1: "lo \<le> k / 2"
    unfolding lo_def k_def by (rule normal_bound)
  have inv_pos: "0 \<le> inv"
    using inv_lo kpos by linarith
  have "lo \<le> \<bar>inv\<bar>"
    using p1 inv_lo kpos by linarith
  then have "\<bar>round_double inv - inv\<bar> \<le> \<bar>inv\<bar> / 2 ^ 53"
    unfolding lo_def by (rule round_double_error)
  then have err: "\<bar>round_double inv - inv\<bar> \<le> inv / 2 ^ 53"
    by (simp only: abs_of_nonneg [OF inv_pos])
  then show "\<bar>round_double (1 / fps) - 1 / fps\<bar> \<le> 1 / fps / 2 ^ 53"
    by (simp only: inv_def)
  have "inv / 2 ^ 53 \<le> inv / 2"
    using inv_pos by (intro divide_left_mono) simp_all
  with err have "inv / 2 \<le> round_double inv"
    by linarith
  with inv_lo p1 have "lo \<le> round_double inv"
    by linarith
  then show "2 powi (- 1022) \<le> round_double (1 / fps)"
    by (simp only: lo_def inv_def)
qed

lemma frame_time_error:
  assumes "2 powi (- 1022) \<le> c"
  shows "\<bar>round_double (real i * c) - real i * c\<bar> \<le> real i * c / 2 ^ 53"
proof (cases "i = 0")
  case True
  then show ?thesis by (simp add: round_double_0)
next
  case False
  define lo :: real where "lo = 2 powi (- 1022)"
  have lopos: "0 < lo" by (simp add: lo_def)
  have c: "lo \<le> c" using assms by (simp only: lo_def)
  have cpos: "0 < c" using c lopos by linarith
  from False have "1 \<le> real i" by simp
  then have "1 * c \<le> real i * c"
    using cpos by (intro mult_right_mono) simp_all
  then have ge: "c \<le> real i * c" by simp
  then have nn: "0 \<le> real i * c" using cpos by linarith
  have "lo \<le> real i * c"
    using ge c by linarith
  then have "lo \<le> \<bar>real i * c\<bar>"
    by (simp only: abs_of_nonneg [OF nn])
  then have "\<bar>round_double (real i * c) - real i * c\<bar> \<le> \<bar>real i * c\<bar> / 2 ^ 53"
    unfolding lo_def by (rule round_double_error)
  then show ?thesis
    by (simp only: abs_of_nonneg [OF nn])
qed

lemma frame_times_increase:
  assumes c: "2 powi (- 1022) \<le> c" and "i < j" and "real i < 2 ^ 52"
  shows "round_double (real i * c) < round_double (real j * c)"
proof -
  define u :: real where "u = 1 / 2 ^ 53"
  define lo :: real where "lo = 2 powi (- 1022)"
  define a where "a = real i * c"
  define b where "b = real j * c"
  have lopos: "0 < lo" by (simp add: lo_def)
  have cpos: "0 < c" using c lopos unfolding lo_def by linarith
  have upos: "0 < u" "u < 1" by (simp_all add: u_def)
  have div_u: "r / 2 ^ 53 = r * u" for r :: real
    by (simp add: u_def)
  have "\<bar>round_double a - a\<bar> \<le> a / 2 ^ 53"
    unfolding a_def by (rule frame_time_error [OF c])
  then have "\<bar>round_double a - a\<bar> \<le> a * u"
    by (simp only: div_u)
  then have ti: "round_double a \<le> a + a * u"
    by linarith
  have "\<bar>round_double b - b\<bar> \<le> b / 2 ^ 53"
    unfolding b_def by (rule frame_time_error [OF c])
  then have "\<bar>round_double b - b\<bar> \<le> b * u"
    by (simp only: div_u)
  then have tj: "b - b * u \<le> round_double b"
    by linarith
  have "real i + 1 \<le> real j"
    using assms(2) by linarith
  then have "(real i + 1) * c \<le> real j * c"
    using cpos by (intro mult_right_mono) simp_all
  then have ab: "a + c \<le> b"
    by (simp only: a_def b_def distrib_right mult_1)
  have au: "2 * (a * u) < c - c * u"
  proof -
    have "2 * real i + 1 < 2 ^ 53"
      using assms(3) by simp
    then have "(2 * real i + 1) * u < 2 ^ 53 * u"
      using upos by (intro mult_strict_right_mono) simp_all
    also have "2 ^ 53 * u = 1" by (simp add: u_def)
    finally have "c * ((2 * real i + 1) * u) < c * 1"
      using cpos by (intro mult_strict_left_mono) simp_all
    then show ?thesis
      by (simp add: a_def algebra_simps)
  qed
  have "0 \<le> (b - (a + c)) * (1 - u)"
    using ab upos by (intro mult_nonneg_nonneg) simp_all
  then have "(a + c) - (a + c) * u \<le> b - b * u"
    by (simp add: algebra_simps)
  then have "a + c - a * u - c * u \<le> b - b * u"
    by (simp add: algebra_simps)
  with ti tj au have "round_double a < round_double b"
    by linarith
  then show ?thesis by (simp only: a_def b_def)
qed

lemma frame_time_close:
  assumes "1 / 2 ^ 1000 \<le> fps" and "fps \<le> 2 ^ 1000"
  shows "\<bar>round_double (real i * round_double (1 / fps)) - real i / fps\<bar> \<le> real i / fps / 2 ^ 51"
proof -
  define c where "c = round_double (1 / fps)"
  define inv where "inv = 1 / fps"
  define u :: real where "u = 1 / 2 ^ 53"
  define a where "a = real i * c"
  define e where "e = real i * inv"
  have kpos: "(0::real) < 1 / 2 ^ 1000" by simp
  have fpos: "0 < fps"
    using assms(1) kpos by linarith
  have inv_pos: "0 < inv" using fpos by (simp add: inv_def)
  have upos: "0 < u" "u \<le> 1" by (simp_all add: u_def)
  have e_nn: "0 \<le> e" using inv_pos by (simp add: e_def)
  have "\<bar>c - inv\<bar> \<le> inv / 2 ^ 53" and cnorm: "2 powi (- 1022) \<le> c"
    using frame_interval_bounds [OF assms] by (simp_all only: c_def inv_def)
  then have cerr: "\<bar>c - inv\<bar> \<le> inv * u"
    by (simp add: u_def)
  have "\<bar>round_double a - a\<bar> \<le> a / 2 ^ 53"
    unfolding a_def by (rule frame_time_error [OF cnorm])
  then have e1: "\<bar>round_double a - a\<bar> \<le> a * u"
    by (simp add: u_def)
  have "\<bar>a - e\<bar> = real i * \<bar>c - inv\<bar>"
    by (simp add: a_def e_def abs_mult flip: right_diff_distrib)
  also have "\<dots> \<le> real i * (inv * u)"
    using cerr by (intro mult_left_mono) simp_all
  finally have e2: "\<bar>a - e\<bar> \<le> e * u"
    by (simp add: e_def algebra_simps)
  have "e * u \<le> e * 1"
    using upos e_nn by (intro mult_left_mono) simp_all
  with e2 have "a \<le> 2 * e" by linarith
  then have "a * u \<le> 2 * e * u"
    using upos by (intro mult_right_mono) simp_all
  with e1 e2 have "\<bar>round_double a - e\<bar> \<le> 4 * (e * u)"
    using e_nn upos by linarith
  also have "4 * (e * u) = e / 2 ^ 51"
    by (simp add: u_def)
  finally show ?thesis
    by (simp add: a_def e_def c_def inv_def)
qed

lemma decoded_silent_clip: "decoded (silent_clip n)"
  by (simp add: decoded_def silent_clip_def)

lemma duration_silent_clip: "duration (silent_clip n) = round_double (real n / 8000)"
  by (simp add: silent_clip_def)

text \<open>
  C1, as the claim states it, fails, because the frame count and the times are computed in
  doubles. 2240 samples at 8000 Hz last 0.28 seconds and \<open>\<lceil>0.28 * 25\<rceil> = 7\<close>, but the double
  product of the duration and 25 is just above 7 and the result has 8 frames. 800 samples at
  8000 Hz have the double duration 0.1, a little more than one tenth, so that the ceiling of
  its exact product with 10 is 2, but the double product is 1 and the result has 1 frame. And
  the times of one second at 10 frames per second are not evenly spaced: the step from frame 2
  to frame 3 differs from the step from frame 1 to frame 2.
\<close>

theorem C1_counterexample:
  "decoded (silent_clip 2240)
   \<and> length (analyzeAudioBuffer (silent_clip 2240) 25 (round_double (1 / 100)) (round_double (1 / 10))) = 8
   \<and> \<lceil>(2240 / 8000) * (25::real)\<rceil> = 7
   \<and> decoded (silent_clip 800)
   \<and> length (analyzeAudioBuffer (silent_clip 800) 10 (round_double (1 / 100)) (round_double (1 / 10))) = 1
   \<and> \<lceil>duration (silent_clip 800) * 10\<rceil> = 2
   \<and> decoded (silent_clip 8000)
   \<and> length (analyzeAudioBuffer (silent_clip 8000) 10 (round_double (1 / 100)) (round_double (1 / 10))) = 10
   \<and> time (analyzeAudioBuffer (silent_clip 8000) 10 (round_double (1 / 100)) (round_double (1 / 10)) ! 3)
       - time (analyzeAudioBuffer (silent_clip 8000) 10 (round_double (1 / 100)) (round_double (1 / 10)) ! 2)
     \<noteq> time (analyzeAudioBuffer (silent_clip 8000) 10 (round_double (1 / 100)) (round_double (1 / 10)) ! 2)
       - time (analyzeAudioBuffer (silent_clip 8000) 10 (round_double (1 / 100)) (round_double (1 / 10)) ! 1)"
proof -
  have n1: "nat \<lceil>round_double (duration (silent_clip 2240) * 25)\<rceil> = 8"
  proof -
    have "nat \<lceil>round_double (round_double (7 / 25) * 25)\<rceil> = 8"
      by code_simp
    then show ?thesis by (simp add: duration_silent_clip)
  qed
  have n2: "nat \<lceil>round_double (duration (silent_clip 800) * 10)\<rceil> = 1"
  proof -
    have "nat \<lceil>round_double (round_double (1 / 10) * 10)\<rceil> = 1"
      by code_simp
    then show ?thesis by (simp add: duration_silent_clip)
  qed
  have n3: "nat \<lceil>round_double (duration (silent_clip 8000) * 10)\<rceil> = 10"
  proof -
    have "nat \<lceil>round_double (round_double 1 * 10)\<rceil> = 10"
      by code_simp
    then show ?thesis by (simp add: duration_silent_clip)
  qed
  have c1: "\<lceil>(2240 / 8000) * (25::real)\<rceil> = 7"
    by simp
  have c2: "\<lceil>duration (silent_clip 800) * 10\<rceil> = 2"
  proof -
    have "\<lceil>round_double (1 / 10) * 10\<rceil> = 2"
      by code_simp
    then show ?thesis by (simp add: duration_silent_clip)
  qed
  have steps: "round_double (real 3 * round_double (1 / 10)) - round_double (real 2 * round_double (1 / 10))
           \<noteq> round_double (real 2 * round_double (1 / 10)) - round_double (real 1 * round_double (1 / 10))"
    by code_simp
  have len3: "length (analyzeAudioBuffer (silent_clip 8000) 10 (round_double (1 / 100)) (round_double (1 / 10))) = 10"
    by (simp only: length_analyzeAudioBuffer n3)
  have t: "time (analyzeAudioBuffer (silent_clip 8000) 10 (round_double (1 / 100)) (round_double (1 / 10)) ! i)
             = round_double (real i * round_double (1 / 10))" if "i < 10" for i
    by (rule time_analyzeAudioBuffer) (simp only: len3 that)
  have t3: "(3::nat) < 10" and t2: "(2::nat) < 10" and t1: "(1::nat) < 10"
    by simp_all
  have "time (analyzeAudioBuffer (silent_clip 8000) 10 (round_double (1 / 100)) (round_double (1 / 10)) ! 3)
       - time (analyzeAudioBuffer (silent_clip 8000) 10 (round_double (1 / 100)) (round_double (1 / 10)) ! 2)
     \<noteq> time (analyzeAudioBuffer (silent_clip 8000) 10 (round_double (1 / 100)) (round_double (1 / 10)) ! 2)
       - time (analyzeAudioBuffer (silent_clip 8000) 10 (round_double (1 / 100)) (round_double (1 / 10)) ! 1)"
    using steps by (simp only: t [OF t3] t [OF t2] t [OF t1] simp_thms)
  then show ?thesis
    using c1 c2 len3
    by (simp only: decoded_silent_clip length_analyzeAudioBuffer n1 n2 simp_thms)
qed

text \<open>
  C1, amended. For a duration \<open>D \<ge> 0\<close> and a frame rate between \<open>1 / 2 ^ 1000\<close> and
  \<open>2 ^ 1000\<close> with \<open>D * fps \<le> 2 ^ 51\<close>, \<^verbatim>\<open>analyzeAudioBuffer\<close> returns exactly
  \<^verbatim>\<open>Math.ceil(duration * fps)\<close> frames, the product being the double product; that count
  differs from \<open>\<lceil>D * fps\<rceil>\<close> by at most one. Frame \<open>i\<close> has the double time
  \<^verbatim>\<open>i * (1 / fps)\<close>: the times start at 0, increase strictly, and the time of frame \<open>i\<close> lies
  within the relative error \<open>1 / 2 ^ 51\<close> of \<open>i / fps\<close>. A signal of duration 0, in
  particular a decoded signal without samples, yields no frame.
\<close>

theorem C1_frame_count_and_times:
  assumes "0 \<le> duration audioBuffer"
    and "1 / 2 ^ 1000 \<le> fps" and "fps \<le> 2 ^ 1000"
    and "duration audioBuffer * fps \<le> 2 ^ 51"
  shows "int (length (analyzeAudioBuffer audioBuffer fps threshold releaseTime))
           = \<lceil>round_double (duration audioBuffer * fps)\<rceil>
     \<and> \<bar>int (length (analyzeAudioBuffer audioBuffer fps threshold releaseTime))
          - \<lceil>duration audioBuffer * fps\<rceil>\<bar> \<le> 1
     \<and> (\<forall>i < length (analyzeAudioBuffer audioBuffer fps threshold releaseTime).
           time (analyzeAudioBuffer audioBuffer fps threshold releaseTime ! i)
             = round_double (real i * round_double (1 / fps)))
     \<and> (analyzeAudioBuffer audioBuffer fps threshold releaseTime \<noteq> [] \<longrightarrow>
           time (analyzeAudioBuffer audioBuffer fps threshold releaseTime ! 0) = 0)
     \<and> (\<forall>i < length (analyzeAudioBuffer audioBuffer fps threshold releaseTime).
           \<bar>time (analyzeAudioBuffer audioBuffer fps threshold releaseTime ! i) - real i / fps\<bar>
             \<le> real i / fps / 2 ^ 51)
     \<and> (\<forall>i j. i < j \<and> j < length (analyzeAudioBuffer audioBuffer fps threshold releaseTime) \<longrightarrow>
           time (analyzeAudioBuffer audioBuffer fps threshold releaseTime ! i)
             < time (analyzeAudioBuffer audioBuffer fps threshold releaseTime ! j))
     \<and> (duration audioBuffer = 0 \<longrightarrow>
           analyzeAudioBuffer audioBuffer fps threshold releaseTime = [])
     \<and> (decoded audioBuffer \<and> channelData audioBuffer = [] \<longrightarrow>
           analyzeAudioBuffer audioBuffer fps threshold releaseTime = [])"
proof -
  define p where "p = duration audioBuffer * fps"
  define fs where "fs = analyzeAudioBuffer audioBuffer fps threshold releaseTime"
  define c where "c = round_double (1 / fps)"
  have kpos: "(0::real) < 1 / 2 ^ 1000" by simp
  have fpos: "0 < fps"
    using assms(2) kpos by linarith
  have p_nn: "0 \<le> p"
    using assms(1) fpos by (simp add: p_def)
  have p_le: "p \<le> 2 ^ 51"
    using assms(4) by (simp only: p_def)
  have len: "length fs = nat \<lceil>round_double p\<rceil>"
    by (simp only: fs_def p_def length_analyzeAudioBuffer)
  have rp_nn: "0 \<le> round_double p"
    using p_nn by (rule round_double_nonneg)
  then have count: "int (length fs) = \<lceil>round_double p\<rceil>"
    by (simp add: len)
  have quarter: "\<bar>round_double p - p\<bar> \<le> 1 / 4"
    using p_nn p_le by (rule round_double_quarter)
  have near: "\<bar>\<lceil>round_double p\<rceil> - \<lceil>p\<rceil>\<bar> \<le> 1"
  proof -
    have "round_double p \<le> p + 1" "p \<le> round_double p + 1"
      using quarter by linarith+
    then have "\<lceil>round_double p\<rceil> \<le> \<lceil>p + 1\<rceil>" "\<lceil>p\<rceil> \<le> \<lceil>round_double p + 1\<rceil>"
      by (simp_all only: ceiling_mono)
    then show ?thesis by simp
  qed
  have len_le: "real (length fs) \<le> 2 ^ 51 + 1"
  proof -
    have "round_double p \<le> 2 ^ 51 + 1 / 4"
      using quarter p_le by linarith
    then have "\<lceil>round_double p\<rceil> \<le> \<lceil>(2::real) ^ 51 + 1\<rceil>"
      by (intro ceiling_mono) linarith
    also have "\<lceil>(2::real) ^ 51 + 1\<rceil> = 2 ^ 51 + 1"
      by simp
    finally have "int (length fs) \<le> 2 ^ 51 + 1"
      by (simp only: count)
    then have "real_of_int (int (length fs)) \<le> real_of_int (2 ^ 51 + 1)"
      by (simp only: of_int_le_iff)
    then show ?thesis by simp
  qed
  have cnorm: "2 powi (- 1022) \<le> c"
    unfolding c_def using frame_interval_bounds(2) [OF assms(2,3)] .
  have times: "time (fs ! i) = round_double (real i * c)" if "i < length fs" for i
    using that unfolding fs_def c_def by (rule time_analyzeAudioBuffer)
  have first: "time (fs ! 0) = 0" if "fs \<noteq> []"
  proof -
    from that have "0 < length fs" by simp
    from times [OF this] show ?thesis by (simp add: round_double_0)
  qed
  have close: "\<bar>time (fs ! i) - real i / fps\<bar> \<le> real i / fps / 2 ^ 51" if "i < length fs" for i
    using frame_time_close [OF assms(2,3), of i] times [OF that] by (simp only: c_def)
  have incr: "time (fs ! i) < time (fs ! j)" if "i < j" "j < length fs" for i j
  proof -
    have "real i + 1 \<le> real j" "real j + 1 \<le> real (length fs)"
      using that by linarith+
    with len_le have "real i < 2 ^ 52"
      by simp
    from frame_times_increase [OF cnorm that(1) this] show ?thesis
      using that times [of i] times [of j] by simp
  qed
  have empty: "fs = []" if "duration audioBuffer = 0"
    using that
    by (simp add: fs_def analyzeAudioBuffer_def round_double_0 analysis_loop_0
        initial_analysis_state_def)
  have "duration audioBuffer = 0" if "decoded audioBuffer" "channelData audioBuffer = []"
    using that by (simp add: decoded_def round_double_0)
  with count near times first close incr empty show ?thesis
    unfolding fs_def [symmetric] p_def [symmetric] c_def [symmetric] by simp
qed

theorem C1_frame_count_and_times_witness:
  "0 \<le> duration (silent_clip 2240) \<and> 1 / 2 ^ 1000 \<le> (25::real) \<and> (25::real) \<le> 2 ^ 1000
   \<and> duration (silent_clip 2240) * 25 \<le> 2 ^ 51
   \<and> length (analyzeAudioBuffer (silent_clip 2240) 25 (round_double (1 / 100)) (round_double (1 / 10))) = 8
   \<and> time (analyzeAudioBuffer (silent_clip 2240) 25 (round_double (1 / 100)) (round_double (1 / 10)) ! 0) = 0
   \<and> time (analyzeAudioBuffer (silent_clip 2240) 25 (round_double (1 / 100)) (round_double (1 / 10)) ! 1)
       < time (analyzeAudioBuffer (silent_clip 2240) 25 (round_double (1 / 100)) (round_double (1 / 10)) ! 2)
   \<and> decoded empty_clip \<and> channelData empty_clip = []
   \<and> analyzeAudioBuffer empty_clip 25 (round_double (1 / 100)) (round_double (1 / 10)) = []"
proof -
  have "round_double (7 / 25) = 1261007895663739 / 4503599627370496"
    by code_simp
  then have d: "duration (silent_clip 2240) = 1261007895663739 / 4503599627370496"
    by (simp add: duration_silent_clip)
  have h1: "0 \<le> duration (silent_clip 2240)"
    by (simp add: d)
  have h2: "1 / 2 ^ 1000 \<le> (25::real)" and h3: "(25::real) \<le> 2 ^ 1000"
    by simp_all
  have h4: "duration (silent_clip 2240) * 25 \<le> 2 ^ 51"
    by (simp add: d)
  have "\<lceil>round_double (1261007895663739 / 4503599627370496 * 25)\<rceil> = 8"
    by code_simp
  then have n: "\<lceil>round_double (duration (silent_clip 2240) * 25)\<rceil> = 8"
    by (simp only: d)
  have e1: "0 \<le> duration empty_clip" and e4: "duration empty_clip * 25 \<le> 2 ^ 51"
    by (simp_all add: empty_clip_def)
  have e: "decoded empty_clip" "channelData empty_clip = []"
    by (simp_all add: empty_clip_def decoded_def round_double_0)
  define fs where
    "fs = analyzeAudioBuffer (silent_clip 2240) 25 (round_double (1 / 100)) (round_double (1 / 10))"
  note main = C1_frame_count_and_times [OF h1 h2 h3 h4,
      of "round_double (1 / 100)" "round_double (1 / 10)", folded fs_def]
  from main have "int (length fs) = \<lceil>round_double (duration (silent_clip 2240) * 25)\<rceil>"
    by (rule conjunct1)
  then have len: "length fs = 8"
    by (simp add: n)
  then have "fs \<noteq> []" by auto
  with main have first: "time (fs ! 0) = 0"
    by blast
  from main have "\<forall>i j. i < j \<and> j < length fs \<longrightarrow> time (fs ! i) < time (fs ! j)"
    by blast
  then have "1 < (2::nat) \<and> 2 < length fs \<longrightarrow> time (fs ! 1) < time (fs ! 2)"
    by blast
  then have incr: "time (fs ! 1) < time (fs ! 2)"
    by (simp add: len)
  from C1_frame_count_and_times [OF e1 h2 h3 e4, of "round_double (1 / 100)" "round_double (1 / 10)"] e
  have "analyzeAudioBuffer empty_clip 25 (round_double (1 / 100)) (round_double (1 / 10)) = []"
    by blast
  with len first incr h1 h2 h3 h4 e show ?thesis
    unfolding fs_def by (simp only: simp_thms)
qed





text \<open>
  C6. The code does not do what the claim says. At 16000 frames per second \<open>short_clip\<close>, a
  decoded signal, has two frames whose windows hold no sample; the loudness of both is
  \<^verbatim>\<open>NaN\<close>, not 0.
\<close>

theorem C6_empty_window_is_NaN:
  "decoded short_clip
   \<and> window_loop (channelData short_clip) 0
        (min (0 + \<lfloor>round_double (sampleRate short_clip * round_double (1 / 16000))\<rfloor>) 1)
       = (Num 0, 0)
   \<and> map volume (analyzeAudioBuffer short_clip 16000 0.01 0.1) = [NaN, NaN]"
proof -
  have n: "nat \<lceil>round_double (round_double (1 / 8000) * 16000)\<rceil> = Suc (Suc 0)"
    by code_simp
  have spf: "\<lfloor>round_double (8000 * round_double (1 / 16000))\<rfloor> = 0"
    by code_simp
  show ?thesis
    by (simp add: decoded_def analyzeAudioBuffer_def short_clip_def analysis_loop_def
        n spf frame_body_def window_loop_def initial_analysis_state_def)
qed

subsection \<open>The face part rectangle editor\<close>

text \<open>
  C7. The code does not do what the claim says. The default rectangle of the open eyes lies
  within the unit square; dragging its east handle to the right by half a frame width makes
  it one frame wide at \<open>x = 0.25\<close>, so it ends at 1.25. Only the last resize block tests
  the right and bottom edges, and that block comes after the second block has already stored
  the new width.
\<close>

theorem C7_east_handle_leaves_unit_square:
  "within_unit_square (eyesOpen DEFAULT_FACE_PARTS)
   \<and> handleMouseMove HandleE (eyesOpen DEFAULT_FACE_PARTS) (1/2) 0
       = \<lparr> x = 0.25, y = 0.2, w = 1, h = 0.15 \<rparr>
   \<and> \<not> within_unit_square (handleMouseMove HandleE (eyesOpen DEFAULT_FACE_PARTS) (1/2) 0)"
  by (simp add: within_unit_square_def DEFAULT_FACE_PARTS_def handleMouseMove_def
      resize_block1_def resize_block2_def resize_block3_def resize_block4_def Let_def)

subsection \<open>The heuristic frame search\<close>

text \<open>
  Whenever the search returns, both eye indices are 0; it returns for the empty frame list,
  and whenever every frame fails to load.
\<close>

lemma findBestExpressionFrames_eyes:
  "findBestExpressionFrames env frameList frameWidth frameHeight = Some r \<Longrightarrow>
     eyesOpenFrameIndex r = 0 \<and> eyesClosedFrameIndex r = 0"
  by (auto simp: findBestExpressionFrames_def split: option.splits)

lemma findBestExpressionFrames_empty:
  "findBestExpressionFrames env [] frameWidth frameHeight =
     Some \<lparr> eyesOpenFrameIndex = 0, eyesClosedFrameIndex = 0,
            mouthOpenFrameIndex = 0, mouthClosedFrameIndex = 0 \<rparr>"
  by (simp add: findBestExpressionFrames_def)

text \<open>
  The mouth indices depend on the pixels. With frames of 3 by 11 pixels the crop is one pixel
  wide and two high and its middle part is one pixel: the white image scores 0, the black one
  0.3, and exchanging the two frames exchanges the two mouth indices.
\<close>

lemma crop_3_11:
  "\<lfloor>round_double (x search_mouth_rect * 3)\<rfloor> = 0"
  "\<lfloor>round_double (y search_mouth_rect * 11)\<rfloor> = 5"
  "\<lfloor>round_double (w search_mouth_rect * 3)\<rfloor> = 1"
  "\<lfloor>round_double (h search_mouth_rect * 11)\<rfloor> = 2"
  "\<lfloor>round_double (2 * round_double (1 / 5))\<rfloor> = 0"
  "\<lfloor>round_double (2 * round_double (4 / 5))\<rfloor> = 1"
  by code_simp+

lemma brightness_values_two_tone:
  "brightness_values (concat (replicate 2 [255, 255, 255, 255])) 1 0 1 = [Num 1]"
  "brightness_values (concat (replicate 2 [0, 0, 0, 255])) 1 0 1 = [Num 0]"
  by code_simp+

lemma round_double_score_values:
  "round_double 1 = 1" "round_double 3 = 3"
  "round_double (3 / 10) = 5404319552844595 / 18014398509481984"
  "round_double (5404319552844595 / 18014398509481984) = 5404319552844595 / 18014398509481984"
  by code_simp+

lemma openness_score_two_tone:
  "openness_score [Num 1] = Num 0"
  "openness_score [Num 0] = Num (round_double (3 / 10))"
  by (simp_all add: openness_score_def Let_def round_double_0 round_double_score_values)

lemma analyzeMouthOpenness_two_tone:
  "analyzeMouthOpenness two_tone_env ''white'' search_mouth_rect 3 11 = Some (Num 0)"
  "analyzeMouthOpenness two_tone_env ''black'' search_mouth_rect 3 11
     = Some (Num (round_double (3 / 10)))"
  "analyzeMouthOpenness two_tone_env ''gone'' search_mouth_rect 3 11 = Some (Num 0)"
  by (simp_all add: analyzeMouthOpenness_def two_tone_env_def Let_def crop_3_11
      brightness_values_two_tone openness_score_two_tone)

lemma findBestExpressionFrames_two_tone:
  "findBestExpressionFrames two_tone_env [''white'', ''black''] 3 11
     = Some \<lparr> eyesOpenFrameIndex = 0, eyesClosedFrameIndex = 0,
              mouthOpenFrameIndex = 1, mouthClosedFrameIndex = 0 \<rparr>"
  "findBestExpressionFrames two_tone_env [''black'', ''white''] 3 11
     = Some \<lparr> eyesOpenFrameIndex = 0, eyesClosedFrameIndex = 0,
              mouthOpenFrameIndex = 0, mouthClosedFrameIndex = 1 \<rparr>"
  by (simp_all add: findBestExpressionFrames_def analyzeMouthOpenness_two_tone search_update_def
      Let_def upt_rec round_double_score_values)

lemma search_crop_height: "\<lfloor>round_double (h search_mouth_rect * 4)\<rfloor> = 0"
  by code_simp

text \<open>
  C9. The code does not do what the claim says. For one frame of 4 by 4 pixels that loads,
  with a context, the crop of the mouth rectangle has the height
  \<^verbatim>\<open>Math.floor(0.19999999999999996 * 4) = 0\<close>; \<^verbatim>\<open>getImageData\<close> throws in the load handler, the
  score of the frame is never delivered, and \<^verbatim>\<open>findBestExpressionFrames\<close> never returns: it
  returns no eye index at all.
\<close>

theorem C9_search_never_returns_for_small_frames:
  "decode two_tone_env ''white'' = Some True
   \<and> context2d two_tone_env
   \<and> \<lfloor>round_double (h search_mouth_rect * 4)\<rfloor> = 0
   \<and> analyzeMouthOpenness two_tone_env ''white'' search_mouth_rect 4 4 = None
   \<and> findBestExpressionFrames two_tone_env [''white''] 4 4 = None"
  by (simp add: findBestExpressionFrames_def analyzeMouthOpenness_def two_tone_env_def Let_def
      search_crop_height)

subsection \<open>The remote analysis call\<close>

lemma parts_loop_first_text:
  "parts_loop parse ps =
     (case filter (\<lambda>txt. txt \<noteq> []) (List.map_filter part_text ps) of
        [] \<Rightarrow> Inl (Error ''No analysis data in the response.'')
      | txt # rest \<Rightarrow>
          (case parse txt of
             Some analysis \<Rightarrow> Inr analysis
           | None \<Rightarrow> Inl (Error ''Failed to parse analysis response as JSON'')))"
  by (induction ps) (simp_all add: map_filter_simps split: option.split)

lemma analyzeSpriteSheet_first_text:
  "analyzeSpriteSheet parse (Inr response) =
     (case text_parts response of
        [] \<Rightarrow> Inl (Error ''No analysis data in the response.'')
      | txt # rest \<Rightarrow>
          (case parse txt of
             Some analysis \<Rightarrow> Inr analysis
           | None \<Rightarrow> Inl (Error ''Failed to parse analysis response as JSON'')))"
  by (simp add: analyzeSpriteSheet_def text_parts_def parts_loop_first_text split: option.split)

lemma analyzeSpriteSheet_Inl: "analyzeSpriteSheet parse (Inl err) = Inl err"
  by (simp add: analyzeSpriteSheet_def)

text \<open>
  C8. \<^verbatim>\<open>analyzeSpriteSheet\<close> raises an error when the response has no text part, and when the
  text part it reads, the first one that is not empty, does not parse as JSON; an error of
  the remote call is passed on. Whenever it returns an analysis, that analysis is the parse
  of the response's text: no default is ever returned.
\<close>

theorem C8_malformed_response_raises:
  "(text_parts response = [] \<longrightarrow>
      analyzeSpriteSheet parse (Inr response) = Inl (Error ''No analysis data in the response.''))
   \<and> (\<forall>txt rest. text_parts response = txt # rest \<and> parse txt = None \<longrightarrow>
      analyzeSpriteSheet parse (Inr response)
        = Inl (Error ''Failed to parse analysis response as JSON''))
   \<and> (\<forall>analysis. analyzeSpriteSheet parse (Inr response) = Inr analysis \<longrightarrow>
      (\<exists>txt rest. text_parts response = txt # rest \<and> parse txt = Some analysis))
   \<and> analyzeSpriteSheet parse (Inl err) = Inl err"
  by (auto simp: analyzeSpriteSheet_first_text analyzeSpriteSheet_Inl
      split: list.splits option.splits)

theorem C8_malformed_response_raises_witness:
  "text_parts no_text_response = []
   \<and> analyzeSpriteSheet parse_example (Inr no_text_response)
       = Inl (Error ''No analysis data in the response.'')
   \<and> text_parts malformed_response = [''{oops''] \<and> parse_example ''{oops'' = None
   \<and> analyzeSpriteSheet parse_example (Inr malformed_response)
       = Inl (Error ''Failed to parse analysis response as JSON'')
   \<and> analyzeSpriteSheet parse_example (Inr good_response) = Inr example_analysis
   \<and> text_parts good_response = [''{}''] \<and> parse_example ''{}'' = Some example_analysis"
  using C8_malformed_response_raises [of no_text_response parse_example]
    C8_malformed_response_raises [of malformed_response parse_example]
    C8_malformed_response_raises [of good_response parse_example]
  by (simp add: text_parts_def response_parts_def no_text_response_def malformed_response_def
      good_response_def map_filter_simps parse_example_def analyzeSpriteSheet_def)

subsection \<open>The video generation effect\<close>




end
